theory Spec2Isabelle
  imports Complex_Main "HOL-Library.AList"
begin

section \<open>Python values and exceptions\<close>

text \<open>
  The exceptions the modelled functions raise. A function that can raise returns
  \<open>py_exception + 'a\<close>, with \<open>Inl\<close> for the exception that leaves the function.
\<close>

datatype py_exception =
    ValueError
  | TypeError
  | AttributeError
  | KeyError
  | IndexError
  | UnboundLocalError
  | TimeoutError
  | JSONDecodeError
  | OtherError string

text \<open>Sequencing of two steps, the second of which runs only if the first did not raise.\<close>

definition and_then ::
  "py_exception + 'a \<Rightarrow> ('a \<Rightarrow> py_exception + 'b) \<Rightarrow> py_exception + 'b" where
  "and_then r f = (case r of Inl e \<Rightarrow> Inl e | Inr x \<Rightarrow> f x)"

text \<open>
  The values that travel as tool arguments, tool results, history messages and parsed
  JSON. A \<open>dict\<close> is an association list in insertion order; \<open>PObject\<close> is any object
  of another class, named by a tag.
\<close>

datatype pyval =
    PNone
  | PBool bool
  | PInt int
  | PFloat real
  | PStr string
  | PList "pyval list"
  | PDict "(string \<times> pyval) list"
  | PObject string

type_synonym py_dict = "(string \<times> pyval) list"

text \<open>\<open>d[k] = v\<close> and \<open>d.update(other)\<close>: a key that is present keeps its place.\<close>

definition dict_set :: "py_dict \<Rightarrow> string \<Rightarrow> pyval \<Rightarrow> py_dict" where
  "dict_set d k v = AList.update k v d"

definition dict_update :: "py_dict \<Rightarrow> py_dict \<Rightarrow> py_dict" where
  "dict_update d other = fold (\<lambda>(k, v) acc. AList.update k v acc) other d"

text \<open>\<open>x.get(key, None)\<close>: only a \<open>dict\<close> has the method.\<close>

definition py_get :: "pyval \<Rightarrow> string \<Rightarrow> py_exception + pyval" where
  "py_get x key =
     (case x of
        PDict d \<Rightarrow> Inr (case map_of d key of None \<Rightarrow> PNone | Some v \<Rightarrow> v)
      | _ \<Rightarrow> Inl AttributeError)"

fun is_substring :: "string \<Rightarrow> string \<Rightarrow> bool" where
  "is_substring k [] = (k = [])"
| "is_substring k (c # cs) = (take (length k) (c # cs) = k \<or> is_substring k cs)"

text \<open>
  \<open>key in x\<close> for a string key: a key of a \<open>dict\<close>, a substring of a string, an element
  of a list; the other values are not containers.
\<close>

definition py_in :: "string \<Rightarrow> pyval \<Rightarrow> py_exception + bool" where
  "py_in key x =
     (case x of
        PDict d \<Rightarrow> Inr (map_of d key \<noteq> None)
      | PStr s \<Rightarrow> Inr (is_substring key s)
      | PList l \<Rightarrow> Inr (PStr key \<in> set l)
      | _ \<Rightarrow> Inl TypeError)"

definition opt_str :: "string option \<Rightarrow> pyval" where
  "opt_str x = (case x of None \<Rightarrow> PNone | Some s \<Rightarrow> PStr s)"

section \<open>A reader for JSON text\<close>

text \<open>
  \<open>json.loads\<close> belongs to Python's library, not to the repository: the functions below
  that parse JSON take the parser as the parameter \<open>loads\<close>. \<open>json_loads\<close> is a reader
  for the texts the examples use: objects, arrays, strings with the two-character escapes,
  integers, \<open>true\<close>, \<open>false\<close> and \<open>null\<close>, with a repeated key keeping its last
  value. The fuel bounds the number of calls by the length of the text.
\<close>

definition is_ws :: "char \<Rightarrow> bool" where
  "is_ws c = (c = CHR '' '' \<or> c = CHR 0x0A \<or> c = CHR 0x0D \<or> c = CHR 0x09)"

definition skip_ws :: "string \<Rightarrow> string" where
  "skip_ws s = dropWhile is_ws s"

definition strip_prefix :: "string \<Rightarrow> string \<Rightarrow> string option" where
  "strip_prefix p s = (if take (length p) s = p then Some (drop (length p) s) else None)"

definition is_digit :: "char \<Rightarrow> bool" where
  "is_digit c = (c \<in> set ''0123456789'')"

definition digit_val :: "char \<Rightarrow> nat" where
  "digit_val c = of_char c - 48"

definition digits_val :: "string \<Rightarrow> nat" where
  "digits_val ds = foldl (\<lambda>acc c. 10 * acc + digit_val c) 0 ds"

text \<open>The characters of a string literal after its opening quote, up to the closing one.\<close>

fun parse_string_body :: "string \<Rightarrow> string \<Rightarrow> (string \<times> string) option" where
  "parse_string_body acc [] = None"
| "parse_string_body acc [c] = (if c = CHR 0x22 then Some (acc, []) else None)"
| "parse_string_body acc (c # d # cs) =
     (if c = CHR 0x22 then Some (acc, d # cs)
      else if c = CHR 0x5C then
        (if d = CHR 0x22 \<or> d = CHR 0x5C \<or> d = CHR ''/'' then parse_string_body (acc @ [d]) cs
         else if d = CHR ''n'' then parse_string_body (acc @ [CHR 0x0A]) cs
         else if d = CHR ''t'' then parse_string_body (acc @ [CHR 0x09]) cs
         else if d = CHR ''r'' then parse_string_body (acc @ [CHR 0x0D]) cs
         else None)
      else if of_char c < (32::nat) then None
      else parse_string_body (acc @ [c]) (d # cs))"

definition parse_number :: "string \<Rightarrow> (pyval \<times> string) option" where
  "parse_number s =
     (let neg = (s \<noteq> [] \<and> hd s = CHR ''-'');
          body = (if neg then tl s else s);
          ds = takeWhile is_digit body;
          rest = dropWhile is_digit body
      in if ds = [] \<or> (length ds > 1 \<and> hd ds = CHR ''0'') then None
         else if rest \<noteq> [] \<and> hd rest \<in> set ''.eE'' then None
         else Some (PInt (if neg then - int (digits_val ds) else int (digits_val ds)), rest))"

fun parse_value :: "nat \<Rightarrow> string \<Rightarrow> (pyval \<times> string) option"
  and parse_elements :: "nat \<Rightarrow> pyval list \<Rightarrow> string \<Rightarrow> (pyval \<times> string) option"
  and parse_members :: "nat \<Rightarrow> py_dict \<Rightarrow> string \<Rightarrow> (pyval \<times> string) option" where
  "parse_value 0 s = None"
| "parse_value (Suc n) s =
     (case skip_ws s of
        [] \<Rightarrow> None
      | c # cs \<Rightarrow>
          if c = CHR ''{'' then
            (case strip_prefix ''}'' (skip_ws cs) of
               Some rest \<Rightarrow> Some (PDict [], rest)
             | None \<Rightarrow> parse_members n [] cs)
          else if c = CHR ''['' then
            (case strip_prefix '']'' (skip_ws cs) of
               Some rest \<Rightarrow> Some (PList [], rest)
             | None \<Rightarrow> parse_elements n [] cs)
          else if c = CHR 0x22 then
            (case parse_string_body [] cs of
               None \<Rightarrow> None
             | Some (str, rest) \<Rightarrow> Some (PStr str, rest))
          else
            (case strip_prefix ''true'' (c # cs) of
               Some rest \<Rightarrow> Some (PBool True, rest)
             | None \<Rightarrow>
                 (case strip_prefix ''false'' (c # cs) of
                    Some rest \<Rightarrow> Some (PBool False, rest)
                  | None \<Rightarrow>
                      (case strip_prefix ''null'' (c # cs) of
                         Some rest \<Rightarrow> Some (PNone, rest)
                       | None \<Rightarrow> parse_number (c # cs)))))"
| "parse_elements 0 acc s = None"
| "parse_elements (Suc n) acc s =
     (case parse_value n s of
        None \<Rightarrow> None
      | Some (v, rest) \<Rightarrow>
          (case strip_prefix '','' (skip_ws rest) of
             Some rest' \<Rightarrow> parse_elements n (acc @ [v]) rest'
           | None \<Rightarrow>
               (case strip_prefix '']'' (skip_ws rest) of
                  Some rest' \<Rightarrow> Some (PList (acc @ [v]), rest')
                | None \<Rightarrow> None)))"
| "parse_members 0 acc s = None"
| "parse_members (Suc n) acc s =
     (case strip_prefix [CHR 0x22] (skip_ws s) of
        None \<Rightarrow> None
      | Some s1 \<Rightarrow>
          (case parse_string_body [] s1 of
             None \<Rightarrow> None
           | Some (key, s2) \<Rightarrow>
               (case strip_prefix '':'' (skip_ws s2) of
                  None \<Rightarrow> None
                | Some s3 \<Rightarrow>
                    (case parse_value n s3 of
                       None \<Rightarrow> None
                     | Some (v, rest) \<Rightarrow>
                         (case strip_prefix '','' (skip_ws rest) of
                            Some rest' \<Rightarrow> parse_members n (AList.update key v acc) rest'
                          | None \<Rightarrow>
                              (case strip_prefix ''}'' (skip_ws rest) of
                                 Some rest' \<Rightarrow> Some (PDict (AList.update key v acc), rest')
                               | None \<Rightarrow> None))))))"

definition json_loads :: "string \<Rightarrow> py_exception + pyval" where
  "json_loads s =
     (case parse_value (Suc (length s)) s of
        None \<Rightarrow> Inl JSONDecodeError
      | Some (v, rest) \<Rightarrow> if skip_ws rest = [] then Inr v else Inl JSONDecodeError)"

section \<open>The streaming accumulator (data/chunk\_data.py)\<close>

text \<open>
  \<open>ChunkToolCallFunction\<close> and \<open>ChunkToolCallData\<close>: every attribute starts as
  \<open>None\<close>, the index as \<open>0\<close>.
\<close>

record ChunkToolCallFunction =
  fn_name :: "string option"
  fn_arguments :: "string option"

record ChunkToolCallData =
  tc_index :: int
  tc_id :: "string option"
  tc_type :: "string option"
  tc_function :: ChunkToolCallFunction

definition new_ChunkToolCallData :: ChunkToolCallData where
  "new_ChunkToolCallData =
     \<lparr>tc_index = 0, tc_id = None, tc_type = None,
      tc_function = \<lparr>fn_name = None, fn_arguments = None\<rparr>\<rparr>"

text \<open>
  \<open>ChunkData\<close>. The clock readings of \<open>time()\<close> are real numbers here;
  \<open>last_stream_publish\<close> starts as \<open>0\<close>.
\<close>

record ChunkData =
  cd_content :: "string option"
  cd_role :: "string option"
  cd_tool_calls :: "ChunkToolCallData list option"
  cd_accumulated_delta :: "string option"
  cd_last_stream_publish :: real
  cd_tool_content :: "string option"

definition new_ChunkData :: ChunkData where
  "new_ChunkData =
     \<lparr>cd_content = None, cd_role = None, cd_tool_calls = None,
      cd_accumulated_delta = None, cd_last_stream_publish = 0, cd_tool_content = None\<rparr>"

text \<open>
  The fragments of the completion service's stream (the client library's
  \<open>ChoiceDelta\<close>, \<open>ChoiceDeltaToolCall\<close> and \<open>ChoiceDeltaToolCallFunction\<close>): every field
  but the index may be absent.
\<close>

record ChoiceDeltaToolCallFunction =
  dfn_name :: "string option"
  dfn_arguments :: "string option"

record ChoiceDeltaToolCall =
  dt_index :: int
  dt_id :: "string option"
  dt_type :: "string option"
  dt_function :: "ChoiceDeltaToolCallFunction option"

record ChoiceDelta =
  dl_role :: "string option"
  dl_content :: "string option"
  dl_tool_calls :: "ChoiceDeltaToolCall list option"

text \<open>
  \<open>x if acc is None else acc + x\<close>, the accumulation the source writes for the content,
  the pending buffer, the tool channel and the argument text.
\<close>

definition accumulate :: "string option \<Rightarrow> string \<Rightarrow> string option" where
  "accumulate acc x = (case acc of None \<Rightarrow> Some x | Some a \<Rightarrow> Some (a @ x))"

text \<open>
  The inner search loop of \<open>add_chunk_delta\<close>: the position of the first accumulator
  whose index is that of the fragment.
\<close>

fun find_tool_call :: "ChunkToolCallData list \<Rightarrow> int \<Rightarrow> nat option" where
  "find_tool_call [] ix = None"
| "find_tool_call (t # ts) ix =
     (if tc_index t = ix then Some 0 else map_option Suc (find_tool_call ts ix))"

text \<open>
  The body of the \<open>if tool_call.type == "function" or delta_tool.type == "function"\<close>
  statement, on the accumulator the fragment belongs to. Reading \<open>delta_tool.function.name\<close>
  of a fragment without a function object raises AttributeError.
\<close>

definition merge_tool_call ::
  "ChoiceDeltaToolCall \<Rightarrow> ChunkToolCallData \<Rightarrow> py_exception + ChunkToolCallData" where
  "merge_tool_call delta_tool tool_call =
     (if tc_type tool_call = Some ''function'' \<or> dt_type delta_tool = Some ''function'' then
        (case dt_function delta_tool of
           None \<Rightarrow> Inl AttributeError
         | Some f \<Rightarrow>
             Inr \<lparr>tc_index = dt_index delta_tool,
                  tc_id = (case dt_id delta_tool of None \<Rightarrow> tc_id tool_call | Some i \<Rightarrow> Some i),
                  tc_type = (case dt_type delta_tool of None \<Rightarrow> tc_type tool_call | Some t \<Rightarrow> Some t),
                  tc_function =
                    \<lparr>fn_name = (case dfn_name f of None \<Rightarrow> fn_name (tc_function tool_call)
                                | Some n \<Rightarrow> Some n),
                     fn_arguments = (case dfn_arguments f of
                                  None \<Rightarrow> fn_arguments (tc_function tool_call)
                                | Some a \<Rightarrow> accumulate (fn_arguments (tc_function tool_call)) a)\<rparr>\<rparr>)
      else Inl ValueError)"

text \<open>One round of the loop over \<open>delta.tool_calls\<close>.\<close>

definition add_tool_delta ::
  "ChoiceDeltaToolCall \<Rightarrow> ChunkToolCallData list \<Rightarrow> py_exception + ChunkToolCallData list" where
  "add_tool_delta delta_tool tool_calls =
     (case find_tool_call tool_calls (dt_index delta_tool) of
        Some i \<Rightarrow>
          (case merge_tool_call delta_tool (tool_calls ! i) of
             Inl e \<Rightarrow> Inl e
           | Inr t \<Rightarrow> Inr (tool_calls[i := t]))
      | None \<Rightarrow>
          (case merge_tool_call delta_tool new_ChunkToolCallData of
             Inl e \<Rightarrow> Inl e
           | Inr t \<Rightarrow> Inr (tool_calls @ [t])))"

fun add_tool_deltas ::
  "ChoiceDeltaToolCall list \<Rightarrow> ChunkToolCallData list \<Rightarrow> py_exception + ChunkToolCallData list" where
  "add_tool_deltas [] tool_calls = Inr tool_calls"
| "add_tool_deltas (d # ds) tool_calls =
     (case add_tool_delta d tool_calls of
        Inl e \<Rightarrow> Inl e
      | Inr tool_calls' \<Rightarrow> add_tool_deltas ds tool_calls')"

text \<open>\<open>ChunkData.add_chunk_delta\<close>.\<close>

definition add_chunk_delta :: "ChoiceDelta \<Rightarrow> ChunkData \<Rightarrow> py_exception + ChunkData" where
  "add_chunk_delta delta self =
     (let self1 = (case dl_role delta of None \<Rightarrow> self | Some r \<Rightarrow> self\<lparr>cd_role := Some r\<rparr>);
          self2 = (case dl_content delta of
                     None \<Rightarrow> self1
                   | Some c \<Rightarrow>
                       self1\<lparr>cd_content := accumulate (cd_content self1) c,
                             cd_accumulated_delta := accumulate (cd_accumulated_delta self1) c\<rparr>)
      in case dl_tool_calls delta of
           None \<Rightarrow> Inr self2
         | Some delta_tools \<Rightarrow>
             (case add_tool_deltas delta_tools
                     (case cd_tool_calls self2 of None \<Rightarrow> [] | Some tcs \<Rightarrow> tcs) of
                Inl e \<Rightarrow> Inl e
              | Inr tcs' \<Rightarrow> Inr (self2\<lparr>cd_tool_calls := Some tcs'\<rparr>)))"

text \<open>
  The fragments of one streamed response, applied in arrival order; the first exception
  ends the processing, as it leaves \<open>send_message\<close>.
\<close>

fun add_chunk_deltas :: "ChoiceDelta list \<Rightarrow> ChunkData \<Rightarrow> py_exception + ChunkData" where
  "add_chunk_deltas [] self = Inr self"
| "add_chunk_deltas (d # ds) self =
     (case add_chunk_delta d self of
        Inl e \<Rightarrow> Inl e
      | Inr self' \<Rightarrow> add_chunk_deltas ds self')"

text \<open>
  \<open>ChunkData.add_data_source_delta\<close>, for the batch the data-source extension sends
  instead of a delta: a list of messages, each a dictionary with an optional \<open>delta\<close>
  (of optional \<open>role\<close> and \<open>content\<close>) and an optional \<open>end_turn\<close>. A \<open>continue\<close>
  skips the assignment to \<open>end_turn\<close> at the end of the loop body. The message of the
  exception for an unexpected role reads \<open>msg.role\<close> of a dictionary, which raises
  AttributeError before the ValueError is built.
\<close>

record DataSourceDelta =
  dd_role :: "string option"
  dd_content :: "string option"

record DataSourceMessage =
  dm_delta :: "DataSourceDelta option"
  dm_end_turn :: "bool option"

definition msg_end_turn :: "DataSourceMessage \<Rightarrow> bool" where
  "msg_end_turn msg = (case dm_end_turn msg of None \<Rightarrow> False | Some b \<Rightarrow> b)"

fun data_source_loop ::
  "DataSourceMessage list \<Rightarrow> bool \<Rightarrow> bool \<Rightarrow> ChunkData \<Rightarrow>
   py_exception + (bool \<times> bool \<times> ChunkData)" where
  "data_source_loop [] end_turn content_accumulated self =
     Inr (end_turn, content_accumulated, self)"
| "data_source_loop (msg # msgs) end_turn content_accumulated self =
     (case dm_delta msg of
        None \<Rightarrow> data_source_loop msgs end_turn content_accumulated self
      | Some delta \<Rightarrow>
          (case dd_role delta of
             None \<Rightarrow>
               (case dd_content delta of
                  None \<Rightarrow> data_source_loop msgs end_turn content_accumulated self
                | Some content \<Rightarrow>
                    data_source_loop msgs (msg_end_turn msg) True
                      (self\<lparr>cd_content := accumulate (cd_content self) content,
                            cd_accumulated_delta :=
                              accumulate (cd_accumulated_delta self) content\<rparr>))
           | Some role \<Rightarrow>
               if role = ''tool'' then
                 (case dd_content delta of
                    None \<Rightarrow> data_source_loop msgs end_turn content_accumulated self
                  | Some content \<Rightarrow>
                      data_source_loop msgs (msg_end_turn msg) content_accumulated
                        (self\<lparr>cd_tool_content := accumulate (cd_tool_content self) content\<rparr>))
               else if role = ''assistant'' then
                 data_source_loop msgs (msg_end_turn msg) content_accumulated self
               else Inl AttributeError))"

definition add_data_source_delta ::
  "DataSourceMessage list \<Rightarrow> ChunkData \<Rightarrow> py_exception + (bool \<times> bool \<times> ChunkData)" where
  "add_data_source_delta data_source_delta_msgs self =
     data_source_loop data_source_delta_msgs False False self"

subsection \<open>Citations (data/chat\_response.py and the accumulator's tool channel)\<close>

record ChatCitation =
  cit_id :: pyval
  cit_text :: pyval
  cit_url :: pyval
  cit_title :: pyval
  cit_start :: pyval
  cit_end :: pyval
  cit_replace_part :: pyval

definition new_ChatCitation :: ChatCitation where
  "new_ChatCitation =
     \<lparr>cit_id = PNone, cit_text = PNone, cit_url = PNone, cit_title = PNone,
      cit_start = PNone, cit_end = PNone, cit_replace_part = PNone\<rparr>"

definition citation_to_api_response :: "ChatCitation \<Rightarrow> py_dict" where
  "citation_to_api_response c =
     filter (\<lambda>(k, v). v \<noteq> PNone)
       [(''id'', cit_id c), (''content'', cit_text c), (''url'', cit_url c),
        (''title'', cit_title c), (''start'', cit_start c), (''end'', cit_end c),
        (''replace_part'', cit_replace_part c)]"

text \<open>\<open>if key in tc_citation: field = tc_citation.get(key, None)\<close>, else the old value.\<close>

definition field_if_present :: "string \<Rightarrow> pyval \<Rightarrow> pyval \<Rightarrow> py_exception + pyval" where
  "field_if_present key tc_citation old =
     and_then (py_in key tc_citation)
       (\<lambda>present. if present then py_get tc_citation key else Inr old)"

definition tool_citation :: "pyval \<Rightarrow> py_exception + ChatCitation" where
  "tool_citation tc_citation =
     and_then (field_if_present ''id'' tc_citation PNone) (\<lambda>i.
     and_then (field_if_present ''content'' tc_citation PNone) (\<lambda>txt.
     and_then (field_if_present ''title'' tc_citation PNone) (\<lambda>title.
     and_then (field_if_present ''url'' tc_citation PNone) (\<lambda>url.
     and_then (if url = PNone then field_if_present ''filepath'' tc_citation url else Inr url)
       (\<lambda>url'.
     and_then (field_if_present ''end'' tc_citation PNone) (\<lambda>e.
     and_then (field_if_present ''start'' tc_citation PNone) (\<lambda>s.
       Inr (new_ChatCitation\<lparr>cit_id := i, cit_text := txt, cit_title := title,
              cit_url := url', cit_end := e, cit_start := s\<rparr>))))))))"

fun tool_citations :: "pyval list \<Rightarrow> py_exception + ChatCitation list" where
  "tool_citations [] = Inr []"
| "tool_citations (tc # tcs) =
     and_then (tool_citation tc) (\<lambda>c.
     and_then (tool_citations tcs) (\<lambda>cs. Inr (c # cs)))"

text \<open>
  \<open>ChunkData.has_tool_citations\<close>; it returns \<open>None\<close>, read as false, when nothing
  came through the tool channel.
\<close>

definition has_tool_citations ::
  "(string \<Rightarrow> py_exception + pyval) \<Rightarrow> ChunkData \<Rightarrow> py_exception + bool" where
  "has_tool_citations loads self =
     (case cd_tool_content self of
        None \<Rightarrow> Inr False
      | Some txt \<Rightarrow>
          and_then (loads txt) (\<lambda>tc.
          and_then (py_get tc ''citations'') (\<lambda>v. Inr (v \<noteq> PNone))))"

text \<open>
  \<open>ChunkData.get_tool_citations\<close>: \<open>None\<close> when nothing came through the tool channel.
  The loop runs over the elements of a list, the keys of a dictionary or the characters of
  a string, and over nothing else.
\<close>

definition py_iter :: "pyval \<Rightarrow> py_exception + pyval list" where
  "py_iter x =
     (case x of
        PList l \<Rightarrow> Inr l
      | PDict d \<Rightarrow> Inr (map (\<lambda>(k, v). PStr k) d)
      | PStr s \<Rightarrow> Inr (map (\<lambda>c. PStr [c]) s)
      | _ \<Rightarrow> Inl TypeError)"

definition get_tool_citations ::
  "(string \<Rightarrow> py_exception + pyval) \<Rightarrow> ChunkData \<Rightarrow> py_exception + ChatCitation list option" where
  "get_tool_citations loads self =
     (case cd_tool_content self of
        None \<Rightarrow> Inr None
      | Some txt \<Rightarrow>
          and_then (loads txt) (\<lambda>tc.
          and_then (case tc of
                      PDict d \<Rightarrow> Inr (case map_of d ''citations'' of None \<Rightarrow> PList [] | Some v \<Rightarrow> v)
                    | _ \<Rightarrow> Inl AttributeError) (\<lambda>tc_citations.
          and_then (py_iter tc_citations) (\<lambda>items.
          and_then (tool_citations items) (\<lambda>cs. Inr (Some cs))))))"

text \<open>The part of \<open>ChatResponse\<close> a streaming step writes.\<close>

record ChatResponse =
  resp_thread_id :: "string option"
  resp_message :: "string option"
  resp_citations :: "ChatCitation list option"

section \<open>The completions proxy (proxy/completions\_proxy.py)\<close>

text \<open>
  The state a turn works on: the fields of the request context and of the proxy that the
  modelled methods read or write, the system clock as the sequence of its readings, and the
  notification channel (what was sent to it, and the exception it raises when it cannot
  send: its connection settings are missing, or the service fails). The clock's readings are
  real numbers, in seconds.
\<close>

record proxy =
  px_stream_id :: "string option"
  px_stream_chunk :: ChunkData
  px_system_prompt :: "string option"
  px_max_history :: int
  px_history :: "py_dict list option"
  px_clock :: "nat \<Rightarrow> real"
  px_reads :: nat
  px_pubsub_error :: "py_exception option"
  px_pushed :: "(string \<times> py_dict) list"

definition read_clock :: "proxy \<Rightarrow> real \<times> proxy" where
  "read_clock st = (px_clock st (px_reads st), st\<lparr>px_reads := Suc (px_reads st)\<rparr>)"

text \<open>\<open>int(time()*1000.0)\<close>, the timestamp of a history message.\<close>

definition millis :: "real \<Rightarrow> int" where
  "millis t = \<lfloor>t * 1000\<rfloor>"

text \<open>
  \<open>StreamMessage\<close> (data/stream\_message.py): the constructor reads the clock, in
  milliseconds; \<open>to_message\<close> spreads a dictionary content and wraps any other.
\<close>

record StreamMessage =
  sm_content :: pyval
  sm_message_type :: string
  sm_timestamp :: real

definition to_message :: "StreamMessage \<Rightarrow> py_dict" where
  "to_message m =
     (case sm_content m of
        PDict d \<Rightarrow>
          dict_update d [(''timestamp'', PFloat (sm_timestamp m)), (''type'', PStr (sm_message_type m))]
      | other \<Rightarrow>
          [(''message'', other), (''timestamp'', PFloat (sm_timestamp m)),
           (''type'', PStr (sm_message_type m))])"

text \<open>
  \<open>push_update_to_stream(StreamMessage(content, type))\<close>: the message is built, then
  sent if the request has a stream (\<open>ChatContext.push_update_to_stream\<close>, pubsub.py).
\<close>

definition push_update_to_stream :: "pyval \<Rightarrow> string \<Rightarrow> proxy \<Rightarrow> py_exception + proxy" where
  "push_update_to_stream content message_type st =
     (let (t, st1) = read_clock st;
          message = \<lparr>sm_content = content, sm_message_type = message_type,
                     sm_timestamp = t * 1000\<rparr>
      in case px_stream_id st1 of
           None \<Rightarrow> Inr st1
         | Some stream_id \<Rightarrow>
             (case px_pubsub_error st1 of
                Some e \<Rightarrow> Inl e
              | None \<Rightarrow> Inr (st1\<lparr>px_pushed := px_pushed st1 @ [(stream_id, to_message message)]\<rparr>)))"

text \<open>
  \<open>_publish_interim_result\<close>. The clock is read for the test only when the publish is
  not forced.
\<close>

definition publish_interim_result :: "bool \<Rightarrow> real \<Rightarrow> proxy \<Rightarrow> py_exception + proxy" where
  "publish_interim_result force_publish publish_frequency st =
     (let (due, st1) =
            (if force_publish then (True, st)
             else (let (t, st') = read_clock st
                   in (t - cd_last_stream_publish (px_stream_chunk st') > publish_frequency, st')))
      in if due then
           (case cd_accumulated_delta (px_stream_chunk st1) of
              None \<Rightarrow> Inr st1
            | Some acc \<Rightarrow>
                if length acc > 0 then
                  and_then (push_update_to_stream (PDict [(''delta'', PStr acc)]) ''interim'' st1)
                    (\<lambda>st2. let (t, st3) = read_clock st2
                           in Inr (st3\<lparr>px_stream_chunk :=
                                      (px_stream_chunk st3)\<lparr>cd_last_stream_publish := t,
                                         cd_accumulated_delta := None\<rparr>\<rparr>))
                else Inr st1)
         else Inr st1)"

text \<open>
  \<open>_add_message_to_thread\<close>: the message gets its timestamp and joins the history.
  \<open>self.history\<close> is \<open>None\<close> until a thread is created or retrieved.
\<close>

definition add_message_to_thread :: "py_dict \<Rightarrow> proxy \<Rightarrow> py_exception + proxy" where
  "add_message_to_thread message st =
     (let (t, st1) = read_clock st
      in case px_history st1 of
           None \<Rightarrow> Inl AttributeError
         | Some messages \<Rightarrow>
             Inr (st1\<lparr>px_history := Some (messages @ [dict_set message ''ts'' (PInt (millis t))])\<rparr>))"

text \<open>\<open>response.message = x if response.message is None else response.message + "\n" + x\<close>.\<close>

definition append_message :: "string option \<Rightarrow> string option \<Rightarrow> py_exception + string option" where
  "append_message old x =
     (case old of
        None \<Rightarrow> Inr x
      | Some m \<Rightarrow> (case x of None \<Rightarrow> Inl TypeError | Some c \<Rightarrow> Inr (Some (m @ [CHR 0x0A] @ c))))"

text \<open>
  \<open>__process_stream_chunk_from_data_extensions_api\<close>; \<open>messages\<close> is
  \<open>choice.model_extra.get('messages')\<close>. The value returned is the \<open>more_steps\<close> of
  \<open>__process_stream_chunk\<close>, which the step loop of \<open>send_message\<close> tests.
\<close>

definition process_stream_chunk_from_data_extensions_api ::
  "(string \<Rightarrow> py_exception + pyval) \<Rightarrow> DataSourceMessage list \<Rightarrow> ChatResponse \<Rightarrow> proxy \<Rightarrow>
   py_exception + (bool \<times> ChatResponse \<times> proxy)" where
  "process_stream_chunk_from_data_extensions_api loads messages response st =
     and_then (add_data_source_delta messages (px_stream_chunk st))
       (\<lambda>(end_turn, content_updated, chunk).
     and_then (if content_updated
               then publish_interim_result False (2/5) (st\<lparr>px_stream_chunk := chunk\<rparr>)
               else Inr (st\<lparr>px_stream_chunk := chunk\<rparr>)) (\<lambda>st2.
     if end_turn then
       and_then (has_tool_citations loads (px_stream_chunk st2)) (\<lambda>has.
       and_then (if has then
                   and_then (get_tool_citations loads (px_stream_chunk st2)) (\<lambda>cs.
                     case resp_citations response of
                       Some old \<Rightarrow>
                         (case cs of
                            None \<Rightarrow> Inl TypeError
                          | Some new \<Rightarrow> Inr (response\<lparr>resp_citations := Some (old @ new)\<rparr>))
                     | None \<Rightarrow> Inr (response\<lparr>resp_citations := cs\<rparr>))
                 else Inr response) (\<lambda>response1.
       and_then (publish_interim_result True (2/5) st2) (\<lambda>st3.
       and_then (case resp_citations response1 of
                   None \<Rightarrow> Inl TypeError
                 | Some cs \<Rightarrow> Inr (map (\<lambda>c. PDict (citation_to_api_response c)) cs)) (\<lambda>citations.
       and_then (add_message_to_thread
                   [(''content'', opt_str (cd_content (px_stream_chunk st3))),
                    (''role'', opt_str (cd_role (px_stream_chunk st3))),
                    (''citations'', PList citations)] st3) (\<lambda>st4.
       and_then (append_message (resp_message response1) (cd_content (px_stream_chunk st4)))
         (\<lambda>message. Inr (True, response1\<lparr>resp_message := message\<rparr>, st4)))))))
     else Inr (False, response, st2)))"

section \<open>Tool dispatch\<close>

text \<open>
  A registered function is called with keyword arguments and returns a value or raises;
  the registry (function\_registry.py) maps a name to the function and its description.
\<close>

type_synonym tool_function = "py_dict \<Rightarrow> py_exception + pyval"

type_synonym FunctionRegistry = "string \<Rightarrow> (tool_function \<times> string) option"

definition registry_getitem :: "FunctionRegistry \<Rightarrow> string \<Rightarrow> py_exception + tool_function" where
  "registry_getitem registry name =
     (case registry name of None \<Rightarrow> Inl KeyError | Some (func, desc) \<Rightarrow> Inr func)"

definition registry_contains :: "FunctionRegistry \<Rightarrow> string \<Rightarrow> bool" where
  "registry_contains registry name = (registry name \<noteq> None)"

text \<open>
  The per-conversation tool configuration (data/chat\_config.py): \<open>args\<close> is \<open>None\<close>
  unless the configuration gives fixed arguments, \<open>functions\<close> is \<open>None\<close> unless it lists
  tools, and a request may have no configuration at all.
\<close>

record ChatFunctionConfig =
  fc_name :: string
  fc_function :: string
  fc_description :: string
  fc_args :: "py_dict option"

record ChatConfig =
  cfg_functions :: "ChatFunctionConfig list option"

text \<open>
  \<open>ChatContext.get_function_config\<close> returns \<open>False\<close> when there is no configuration or
  no list of functions, the first entry of the name when there is one, and \<open>None\<close> otherwise.
\<close>

datatype function_config_result = PyFalse | PyNone | Matched ChatFunctionConfig

definition get_function_config :: "ChatConfig option \<Rightarrow> string \<Rightarrow> function_config_result" where
  "get_function_config config function_name =
     (case config of
        None \<Rightarrow> PyFalse
      | Some c \<Rightarrow>
          (case cfg_functions c of
             None \<Rightarrow> PyFalse
           | Some fs \<Rightarrow>
               (case find (\<lambda>f. fc_name f = function_name) fs of
                  None \<Rightarrow> PyNone
                | Some f \<Rightarrow> Matched f)))"

text \<open>
  \<open>AbstractProxy._invoke_function_tool\<close>, called with keyword arguments only. \<open>False\<close>
  is not \<open>None\<close>, so the first branch is taken for it, and reading \<open>args\<close> of \<open>False\<close>
  raises AttributeError; \<open>kwargs.update(None)\<close> raises TypeError.
\<close>

definition invoke_function_tool ::
  "FunctionRegistry \<Rightarrow> ChatConfig option \<Rightarrow> string \<Rightarrow> py_dict \<Rightarrow> py_exception + pyval" where
  "invoke_function_tool registry config function_name kwargs =
     (case get_function_config config function_name of
        PyFalse \<Rightarrow> Inl AttributeError
      | Matched matched_function \<Rightarrow>
          (case fc_args matched_function of
             None \<Rightarrow> Inl TypeError
           | Some args \<Rightarrow>
               and_then (registry_getitem registry (fc_function matched_function))
                 (\<lambda>func. func (dict_update kwargs args)))
      | PyNone \<Rightarrow>
          if registry_contains registry function_name
          then and_then (registry_getitem registry function_name) (\<lambda>func. func kwargs)
          else Inl ValueError)"

text \<open>
  The normalisation of a result to a string. \<open>json.dumps\<close> and \<open>str\<close> are Python's:
  the parameters \<open>dumps\<close> (which raises on a value it cannot serialise) and \<open>str\<close>.
\<close>

definition result_to_string ::
  "(pyval \<Rightarrow> py_exception + string) \<Rightarrow> (pyval \<Rightarrow> string) \<Rightarrow> pyval \<Rightarrow> py_exception + string" where
  "result_to_string dumps str result =
     (case result of
        PStr s \<Rightarrow> Inr s
      | PDict d \<Rightarrow> dumps result
      | PList l \<Rightarrow> dumps result
      | PBool b \<Rightarrow> Inr (if b then ''true'' else ''false'')
      | _ \<Rightarrow> Inr (str result))"

text \<open>
  The part of the two \<open>__invoke_function_tool\<close> methods inside \<open>try\<close>: the call with
  \<open>**args\<close>, which needs a dictionary, and the normalisation; any exception gives
  \<open>"Failed"\<close>.
\<close>

definition invoke_and_normalise ::
  "(pyval \<Rightarrow> py_exception + string) \<Rightarrow> (pyval \<Rightarrow> string) \<Rightarrow> FunctionRegistry \<Rightarrow>
   ChatConfig option \<Rightarrow> string \<Rightarrow> pyval \<Rightarrow> string" where
  "invoke_and_normalise dumps str registry config function_name args =
     (case and_then (case args of
                       PDict kwargs \<Rightarrow> invoke_function_tool registry config function_name kwargs
                     | _ \<Rightarrow> Inl TypeError)
             (result_to_string dumps str) of
        Inl e \<Rightarrow> ''Failed''
      | Inr result \<Rightarrow> result)"

text \<open>
  The first line of both methods, before \<open>try\<close>:
  \<open>args = {} if function_args is None else json.loads(function_args)\<close>.
\<close>

definition parse_function_args ::
  "(string \<Rightarrow> py_exception + pyval) \<Rightarrow> string option \<Rightarrow> py_exception + pyval" where
  "parse_function_args loads function_args =
     (case function_args of None \<Rightarrow> Inr (PDict []) | Some txt \<Rightarrow> loads txt)"

text \<open>\<open>CompletionsProxy.__invoke_function_tool\<close>.\<close>

definition completions_invoke_function_tool ::
  "(string \<Rightarrow> py_exception + pyval) \<Rightarrow> (pyval \<Rightarrow> py_exception + string) \<Rightarrow> (pyval \<Rightarrow> string) \<Rightarrow>
   FunctionRegistry \<Rightarrow> ChatConfig option \<Rightarrow> string \<Rightarrow> string option \<Rightarrow> py_exception + string" where
  "completions_invoke_function_tool loads dumps str registry config function_name function_args =
     and_then (parse_function_args loads function_args)
       (\<lambda>args. Inr (invoke_and_normalise dumps str registry config function_name args))"

text \<open>\<open>AssistantsProxy.__invoke_function_tool\<close>, which wraps the string in a \<open>ToolOutput\<close>.\<close>

record ToolOutput =
  out_output :: string
  out_tool_call_id :: string

definition assistants_invoke_function_tool ::
  "(string \<Rightarrow> py_exception + pyval) \<Rightarrow> (pyval \<Rightarrow> py_exception + string) \<Rightarrow> (pyval \<Rightarrow> string) \<Rightarrow>
   FunctionRegistry \<Rightarrow> ChatConfig option \<Rightarrow> string \<Rightarrow> string option \<Rightarrow> string \<Rightarrow>
   py_exception + ToolOutput" where
  "assistants_invoke_function_tool loads dumps str registry config function_name function_args call_id =
     and_then (parse_function_args loads function_args)
       (\<lambda>args. Inr \<lparr>out_output = invoke_and_normalise dumps str registry config function_name args,
                    out_tool_call_id = call_id\<rparr>)"

section \<open>History compaction (proxy/completions\_proxy.py)\<close>

definition get_system_prompt :: "proxy \<Rightarrow> string" where
  "get_system_prompt st =
     (case px_system_prompt st of
        None \<Rightarrow> ''You are a smart assistant who is here to answer user questions as best you can.''
      | Some system_prompt \<Rightarrow> system_prompt)"

text \<open>\<open>_init_history\<close>: the history of a new thread holds the system prompt.\<close>

definition init_history :: "proxy \<Rightarrow> proxy" where
  "init_history st =
     (case px_history st of
        Some h \<Rightarrow> st
      | None \<Rightarrow>
          (let system_prompt = get_system_prompt st;
               (t, st1) = read_clock st
           in st1\<lparr>px_history :=
                    Some [[(''ts'', PInt (millis t)), (''content'', PStr system_prompt),
                           (''role'', PStr ''system'')]]\<rparr>))"

text \<open>
  \<open>_add_user_prompt_to_thread\<close>. The stored history of a thread is read through
  \<open>get_item\<close> (functions/cosmos\_lookup.py), the parameter \<open>retrieve_thread\<close>: the
  messages of the stored history, or \<open>None\<close> when the store has none for the thread.
\<close>

definition add_user_prompt_to_thread ::
  "(string \<Rightarrow> py_exception + py_dict list option) \<Rightarrow> string \<Rightarrow> string \<Rightarrow> string option \<Rightarrow>
   proxy \<Rightarrow> py_exception + proxy" where
  "add_user_prompt_to_thread retrieve_thread message role thread_id st =
     and_then
       (case px_history st of
          Some h \<Rightarrow> Inr st
        | None \<Rightarrow>
            (case thread_id of
               None \<Rightarrow> Inl ValueError
             | Some tid \<Rightarrow>
                 if tid = [] then Inl ValueError
                 else and_then (retrieve_thread tid)
                        (\<lambda>h. case h of
                               Some messages \<Rightarrow> Inr (st\<lparr>px_history := Some messages\<rparr>)
                             | None \<Rightarrow> Inr (init_history st))))
       (\<lambda>st1. let (t, st2) = read_clock st1
              in case px_history st2 of
                   None \<Rightarrow> Inl TypeError
                 | Some messages \<Rightarrow>
                     Inr (st2\<lparr>px_history :=
                               Some (messages @ [[(''ts'', PInt (millis t)), (''content'', PStr message),
                                                  (''role'', PStr role)]])\<rparr>))"

text \<open>
  The answer of the completion service to a request without streaming: the messages of
  its choices. The service is the parameter \<open>create\<close>, from the messages sent to the
  choices, or to the exception of a failed call.
\<close>

record ChatCompletionMessage =
  cm_content :: "string option"
  cm_role :: string

definition strip_ts :: "py_dict \<Rightarrow> py_dict" where
  "strip_ts message = filter (\<lambda>(key, v). key \<noteq> ''ts'') message"

definition summary_request :: py_dict where
  "summary_request =
     [(''content'', PStr ''Summarize the key points from this whole conversation, keeping track of important information that may be needed to continue the conversation at a later point. Be as consise as possible, but don't stinge out on the details either''),
      (''role'', PStr ''user'')]"

definition summary_message :: "string \<Rightarrow> string \<Rightarrow> py_dict" where
  "summary_message content role =
     [(''content'', PStr (''Here is a summary of the conversation up to this point: '' @ content)),
      (''role'', PStr role)]"

text \<open>The loop over \<open>result.choices\<close> of \<open>__summarise_thread\<close>.\<close>

fun add_summaries :: "ChatCompletionMessage list \<Rightarrow> proxy \<Rightarrow> py_exception + proxy" where
  "add_summaries [] st = Inr st"
| "add_summaries (m # ms) st =
     (case cm_content m of
        None \<Rightarrow> Inl TypeError
      | Some content \<Rightarrow>
          and_then (add_message_to_thread (summary_message content (cm_role m)) st)
            (add_summaries ms))"

text \<open>\<open>__summarise_thread\<close>. \<open>pop\<close> of an empty list raises IndexError.\<close>

definition summarise_thread ::
  "(py_dict list \<Rightarrow> py_exception + ChatCompletionMessage list) \<Rightarrow> proxy \<Rightarrow> py_exception + proxy" where
  "summarise_thread create st =
     and_then (push_update_to_stream (PStr ''I'm just summarising the conversation so far'')
                 ''progress'' st) (\<lambda>st1.
     case px_history st1 of
       None \<Rightarrow> Inl AttributeError
     | Some messages \<Rightarrow>
         if messages = [] then Inl IndexError
         else if butlast messages = [] then Inl IndexError
         else
           (let most_recent_message = last messages;
                second_most_recent_message = last (butlast messages);
                st2 = st1\<lparr>px_history := Some (butlast (butlast messages))\<rparr>
            in and_then (add_message_to_thread summary_request st2) (\<lambda>st3.
               and_then (create (map strip_ts (case px_history st3 of None \<Rightarrow> [] | Some ms \<Rightarrow> ms)))
                 (\<lambda>choices.
               and_then (add_message_to_thread
                           [(''content'', PStr (get_system_prompt st3)), (''role'', PStr ''system'')]
                           (st3\<lparr>px_history := Some []\<rparr>)) (\<lambda>st4.
               and_then (add_summaries choices st4) (\<lambda>st5.
               and_then (add_message_to_thread second_most_recent_message st5) (\<lambda>st6.
               add_message_to_thread most_recent_message st6)))))))"

text \<open>
  The statements of \<open>send_message\<close> before its step loop, for the thread
  \<open>_determine_thread_id\<close> has chosen: a progress update, the prompt, and the compaction
  once the history has reached \<open>max_history\<close> messages.
\<close>

definition send_message_begin ::
  "(string \<Rightarrow> py_exception + py_dict list option) \<Rightarrow>
   (py_dict list \<Rightarrow> py_exception + ChatCompletionMessage list) \<Rightarrow> string \<Rightarrow> string option \<Rightarrow>
   proxy \<Rightarrow> py_exception + proxy" where
  "send_message_begin retrieve_thread create message thread_id st =
     and_then (push_update_to_stream (PStr ''Recalling our conversation so far'') ''progress'' st)
       (\<lambda>st1.
     and_then (add_user_prompt_to_thread retrieve_thread message ''user'' thread_id st1) (\<lambda>st2.
     if int (length (case px_history st2 of None \<Rightarrow> [] | Some ms \<Rightarrow> ms)) \<ge> px_max_history st2
     then summarise_thread create st2
     else Inr st2))"

section \<open>Multi-agent orchestration (proxy/assistant\_processor.py)\<close>

text \<open>
  The agent service as the processor sees it through \<open>AssistantsProxy\<close> and
  \<open>__lookup_assistant\<close>: each call returns or raises. The polling loops behind
  \<open>send_message\<close> and \<open>await_run_complete_or_fail\<close> run against the remote service and
  the clock; their outcome is an input here. The text of a message content is what Python
  prints for \<open>content.text\<close>.
\<close>

record Assistant =
  as_id :: string
  as_name :: string

datatype MessageContent = TextContent string | ImageFileContent string

record ThreadMessage =
  tm_id :: string
  tm_assistant_id :: "string option"
  tm_run_id :: "string option"
  tm_created_at :: "int option"
  tm_content :: "MessageContent list"

record agent_service =
  svc_lookup_assistant :: "string \<Rightarrow> py_exception + Assistant"
  svc_create_thread :: "nat \<Rightarrow> py_exception + string"
  svc_send_message :: "string \<Rightarrow> string \<Rightarrow> real \<Rightarrow> py_exception option"
  svc_run_assistant :: "string \<Rightarrow> string \<Rightarrow> py_exception + string"
  svc_await_run_complete_or_fail :: "string \<Rightarrow> string \<Rightarrow> real \<Rightarrow> py_exception + string"
  svc_list_messages :: "string \<Rightarrow> py_exception + ThreadMessage list"

text \<open>
  The processor's state: its list of assistants, the thread fields of the request
  context, the clock and the number of threads created so far.
\<close>

record processor =
  pr_assistants :: "string list"
  pr_thread_id :: "string option"
  pr_linked_threads :: "(string \<times> string) list option"
  pr_clock :: "nat \<Rightarrow> real"
  pr_reads :: nat
  pr_threads_created :: nat

definition time_now :: "processor \<Rightarrow> real \<times> processor" where
  "time_now st = (pr_clock st (pr_reads st), st\<lparr>pr_reads := Suc (pr_reads st)\<rparr>)"

definition create_thread :: "agent_service \<Rightarrow> processor \<Rightarrow> py_exception + (string \<times> processor)" where
  "create_thread svc st =
     and_then (svc_create_thread svc (pr_threads_created st))
       (\<lambda>thread_id. Inr (thread_id, st\<lparr>pr_threads_created := Suc (pr_threads_created st)\<rparr>))"

definition get_linked_thread :: "processor \<Rightarrow> string \<Rightarrow> string option" where
  "get_linked_thread st assistant_id =
     (case pr_linked_threads st of None \<Rightarrow> None | Some links \<Rightarrow> map_of links assistant_id)"

definition add_linked_thread :: "string \<Rightarrow> string \<Rightarrow> processor \<Rightarrow> processor" where
  "add_linked_thread assistant thread_id st =
     st\<lparr>pr_linked_threads :=
          Some (AList.update assistant thread_id
                  (case pr_linked_threads st of None \<Rightarrow> [] | Some links \<Rightarrow> links))\<rparr>"

text \<open>
  What arrives as \<open>timeout_secs\<close>: a number of seconds, or the tuple of a number and the
  metadata. \<open>start_time + timeout_secs\<close> is defined for the number only.
\<close>

datatype timeout_arg = Seconds real | SecondsAndMetadata real "py_dict option"

definition add_seconds :: "real \<Rightarrow> timeout_arg \<Rightarrow> py_exception + real" where
  "add_seconds start_time timeout_secs =
     (case timeout_secs of
        Seconds secs \<Rightarrow> Inr (start_time + secs)
      | SecondsAndMetadata secs metadata \<Rightarrow> Inl TypeError)"

text \<open>The two tests of the loop over the listed messages.\<close>

definition keeps_message :: "real \<Rightarrow> string \<Rightarrow> ThreadMessage \<Rightarrow> bool" where
  "keeps_message start_time run_id msg =
     (\<not> (case tm_created_at msg of
            None \<Rightarrow> False
          | Some created_at \<Rightarrow> created_at > 0 \<and> real_of_int created_at < start_time)
      \<and> (case tm_run_id msg of None \<Rightarrow> True | Some r \<Rightarrow> r = run_id))"

text \<open>
  \<open>__process_prompt_in_thread\<close>. The handler of TimeoutError logs \<open>run_id\<close>, which is
  unbound when the timeout came before the run was started.
\<close>

definition process_prompt_in_thread ::
  "agent_service \<Rightarrow> string \<Rightarrow> string \<Rightarrow> string \<Rightarrow> timeout_arg \<Rightarrow> processor \<Rightarrow>
   py_exception + ((bool \<times> ThreadMessage list option) \<times> processor)" where
  "process_prompt_in_thread svc prompt assistant thread_id timeout_secs st =
     (let (start_time, st1) = time_now st
      in and_then (add_seconds start_time timeout_secs) (\<lambda>expiry.
         let (t1, st2) = time_now st1
         in case svc_send_message svc prompt thread_id (expiry - t1) of
              Some e \<Rightarrow> if e = TimeoutError then Inl UnboundLocalError else Inl e
            | None \<Rightarrow>
                (case svc_run_assistant svc assistant thread_id of
                   Inl e \<Rightarrow> if e = TimeoutError then Inl UnboundLocalError else Inl e
                 | Inr run_id \<Rightarrow>
                     (let (t2, st3) = time_now st2
                      in case svc_await_run_complete_or_fail svc thread_id run_id (expiry - t2) of
                           Inl e \<Rightarrow> if e = TimeoutError then Inr ((False, None), st3) else Inl e
                         | Inr status \<Rightarrow>
                             if status = ''completed'' then
                               and_then (svc_list_messages svc thread_id)
                                 (\<lambda>msgs. Inr ((True, Some (filter (keeps_message start_time run_id) msgs)),
                                              st3))
                             else Inr ((False, None), st3)))))"

text \<open>
  The loop of \<open>__orchestrate_prompt_with_assistants\<close> that submits one call per worker
  to the pool. The fourth argument of each call is the tuple
  \<open>(timeout - (time() - start_time), metadata)\<close>. A submitted call keeps its result or its
  exception until \<open>result()\<close> is asked; the calls are run here at submission, one after
  the other, which is one schedule of the pool.
\<close>

fun submit_workers ::
  "agent_service \<Rightarrow> string \<Rightarrow> real \<Rightarrow> py_dict option \<Rightarrow> real \<Rightarrow> string list \<Rightarrow> processor \<Rightarrow>
   py_exception + ((py_exception + (bool \<times> ThreadMessage list option)) list \<times> processor)" where
  "submit_workers svc prompt timeout metadata start_time [] st = Inr ([], st)"
| "submit_workers svc prompt timeout metadata start_time (assistant # assistants) st =
     and_then (svc_lookup_assistant svc assistant) (\<lambda>a.
     and_then (case get_linked_thread st (as_id a) of
                 Some thread_id \<Rightarrow> Inr (thread_id, st)
               | None \<Rightarrow>
                   and_then (create_thread svc st)
                     (\<lambda>(thread_id, st'). Inr (thread_id, add_linked_thread (as_id a) thread_id st')))
       (\<lambda>(assistant_thread_id, st1).
     let (t, st2) = time_now st1;
         outcome = process_prompt_in_thread svc prompt (as_id a) assistant_thread_id
                     (SecondsAndMetadata (timeout - (t - start_time)) metadata) st2;
         future = (case outcome of Inl e \<Rightarrow> Inl e | Inr (r, st') \<Rightarrow> Inr r);
         st3 = (case outcome of Inl e \<Rightarrow> st2 | Inr (r, st') \<Rightarrow> st')
     in and_then (submit_workers svc prompt timeout metadata start_time assistants st3)
          (\<lambda>(futures, st4). Inr (future # futures, st4))))"

text \<open>\<open>[future.result() for future in ...]\<close>: the first exception leaves the function.\<close>

fun future_results :: "(py_exception + 'a) list \<Rightarrow> py_exception + 'a list" where
  "future_results [] = Inr []"
| "future_results (f # fs) =
     and_then f (\<lambda>r. and_then (future_results fs) (\<lambda>rs. Inr (r # rs)))"

text \<open>\<open>__build_interpreter_prompt\<close>.\<close>

definition content_line :: "MessageContent \<Rightarrow> string" where
  "content_line c =
     (case c of
        TextContent text \<Rightarrow> text @ [CHR 0x0A, CHR 0x09]
      | ImageFileContent file_id \<Rightarrow>
          ''Image Response at path: '' @ file_id @ [CHR 0x0A, CHR 0x09])"

fun assistant_sections :: "agent_service \<Rightarrow> ThreadMessage list list \<Rightarrow> py_exception + string" where
  "assistant_sections svc [] = Inr []"
| "assistant_sections svc (assistant_res # res) =
     (case assistant_res of
        [] \<Rightarrow> assistant_sections svc res
      | first # others \<Rightarrow>
          (case tm_assistant_id first of
             None \<Rightarrow> Inl AttributeError
           | Some assistant_id \<Rightarrow>
               and_then (case svc_lookup_assistant svc assistant_id of
                           Inr a \<Rightarrow> Inr (as_name a)
                         | Inl e \<Rightarrow> if e = ValueError then Inr assistant_id else Inl e)
                 (\<lambda>assistant_name.
               and_then (assistant_sections svc res) (\<lambda>rest.
                 Inr (''>> Assistant: '' @ assistant_name @ '':'' @ [CHR 0x0A]
                      @ concat (map (\<lambda>msg. concat (map content_line (tm_content msg))) assistant_res)
                      @ [CHR 0x0A, CHR 0x0A] @ rest)))))"

definition build_interpreter_prompt ::
  "agent_service \<Rightarrow> ThreadMessage list list \<Rightarrow> string \<Rightarrow> py_exception + string" where
  "build_interpreter_prompt svc res trigger_prompt =
     and_then (assistant_sections svc res) (\<lambda>sections.
       Inr (''The following question has been posed:'' @ [CHR 0x0A]
            @ trigger_prompt @ [CHR 0x0A, CHR 0x0A]
            @ ''The  following responses have been provided by the other assistants:'' @ [CHR 0x0A]
            @ sections
            @ ''Please consider the responses from these assistants in relation to your understanding of the question and provide a suitable response to the question.''
            @ [CHR 0x0A]
            @ ''Some assistants may not have have the data or context needed to provide a suitable answer, or may not have understood the question. Please consider this in your response.''))"

text \<open>
  \<open>__orchestrate_prompt_with_assistants\<close>. The conversion of the interpreter's messages
  (\<open>__messages_to_response\<close>) is the parameter \<open>to_response\<close>.
\<close>

definition orchestrate_prompt_with_assistants ::
  "agent_service \<Rightarrow> (ThreadMessage list option \<Rightarrow> py_exception + 'r) \<Rightarrow> string \<Rightarrow> real \<Rightarrow>
   processor \<Rightarrow> py_exception + (('r \<times> int \<times> int) \<times> processor)" where
  "orchestrate_prompt_with_assistants svc to_response prompt timeout st =
     (let (start_time, st1) = time_now st
      in if pr_assistants st1 = [] then Inl IndexError
         else
           and_then (svc_lookup_assistant svc (last (pr_assistants st1)))
             (\<lambda>interpretation_assistant.
           and_then (submit_workers svc prompt timeout None start_time
                       (butlast (pr_assistants st1))
                       (st1\<lparr>pr_assistants := butlast (pr_assistants st1)\<rparr>))
             (\<lambda>(worker_threads, st2).
           and_then (future_results worker_threads) (\<lambda>results.
           let success_count = int (length (filter fst results));
               failure_count = int (length results) - success_count;
               res = concat (map (\<lambda>(success, messages).
                                     case messages of
                                       None \<Rightarrow> []
                                     | Some ms \<Rightarrow> if ms = [] then [] else [ms]) results)
           in and_then (build_interpreter_prompt svc res prompt) (\<lambda>final_prompt.
              and_then (case pr_thread_id st2 of
                          Some thread_id \<Rightarrow> Inr (thread_id, st2)
                        | None \<Rightarrow>
                            and_then (create_thread svc st2)
                              (\<lambda>(thread_id, st'). Inr (thread_id, st'\<lparr>pr_thread_id := Some thread_id\<rparr>)))
                (\<lambda>(thread_id, st3).
              let (t, st4) = time_now st3
              in and_then (process_prompt_in_thread svc final_prompt (as_id interpretation_assistant)
                             thread_id (Seconds (max 20 (timeout - (t - start_time)))) st4)
                   (\<lambda>((success, messages), st5).
                 and_then (to_response messages) (\<lambda>responses.
                   Inr ((responses,
                         if success then success_count + 1 else success_count,
                         if success then failure_count else failure_count + 1), st5)))))))))"

text \<open>\<open>process_prompt\<close>: one assistant is asked directly, with the timeout itself.\<close>

definition process_prompt ::
  "agent_service \<Rightarrow> (ThreadMessage list option \<Rightarrow> py_exception + 'r) \<Rightarrow> string \<Rightarrow> real \<Rightarrow>
   processor \<Rightarrow> py_exception + (('r \<times> int \<times> int) \<times> processor)" where
  "process_prompt svc to_response prompt timeout_secs st =
     (case pr_assistants st of
        [assistant] \<Rightarrow>
          and_then (svc_lookup_assistant svc assistant) (\<lambda>a.
          and_then (case pr_thread_id st of
                      Some thread_id \<Rightarrow> Inr (thread_id, st)
                    | None \<Rightarrow>
                        and_then (create_thread svc st)
                          (\<lambda>(thread_id, st'). Inr (thread_id, st'\<lparr>pr_thread_id := Some thread_id\<rparr>)))
            (\<lambda>(thread_id, st1).
          and_then (process_prompt_in_thread svc prompt (as_id a) thread_id (Seconds timeout_secs) st1)
            (\<lambda>((success, messages), st2).
          and_then (to_response messages) (\<lambda>responses.
            Inr ((responses, if success then 1 else 0, if success then 0 else 1), st2)))))
      | _ \<Rightarrow> orchestrate_prompt_with_assistants svc to_response prompt timeout_secs st)"

section \<open>Reference functions and sample data\<close>

subsection \<open>What a sequence of fragments should add up to\<close>

text \<open>
  The content fields of a sequence, concatenated in order: \<open>None\<close> when no fragment
  carried a content.
\<close>

definition joined :: "string option list \<Rightarrow> string option" where
  "joined xs =
     (if list_all (\<lambda>x. x = None) xs then None
      else Some (concat (map (\<lambda>x. case x of None \<Rightarrow> [] | Some c \<Rightarrow> c) xs)))"

text \<open>The last value given in a sequence of optional values.\<close>

definition last_given :: "'a option list \<Rightarrow> 'a option" where
  "last_given xs =
     (if filter (\<lambda>x. x \<noteq> None) xs = [] then None else last (filter (\<lambda>x. x \<noteq> None) xs))"

definition content_fragment :: "string \<Rightarrow> ChoiceDelta" where
  "content_fragment c = \<lparr>dl_role = None, dl_content = Some c, dl_tool_calls = None\<rparr>"

text \<open>A fragment that carries one piece of one tool call.\<close>

definition tool_fragment ::
  "int \<Rightarrow> string option \<Rightarrow> string option \<Rightarrow> string option \<Rightarrow> string option \<Rightarrow> ChoiceDelta" where
  "tool_fragment ix call_id call_type name arguments =
     \<lparr>dl_role = None, dl_content = None,
      dl_tool_calls =
        Some [\<lparr>dt_index = ix, dt_id = call_id, dt_type = call_type,
               dt_function = Some \<lparr>dfn_name = name, dfn_arguments = arguments\<rparr>\<rparr>]\<rparr>"

text \<open>The tool-call pieces of a sequence of fragments, in arrival order.\<close>

definition tool_fragments :: "ChoiceDelta list \<Rightarrow> ChoiceDeltaToolCall list" where
  "tool_fragments ds = concat (map (\<lambda>d. case dl_tool_calls d of None \<Rightarrow> [] | Some ts \<Rightarrow> ts) ds)"

definition fragments_of :: "ChoiceDeltaToolCall list \<Rightarrow> int \<Rightarrow> ChoiceDeltaToolCall list" where
  "fragments_of frs ix = filter (\<lambda>f. dt_index f = ix) frs"

definition piece_name :: "ChoiceDeltaToolCall \<Rightarrow> string option" where
  "piece_name f = (case dt_function f of None \<Rightarrow> None | Some g \<Rightarrow> dfn_name g)"

definition piece_arguments :: "ChoiceDeltaToolCall \<Rightarrow> string option" where
  "piece_arguments f = (case dt_function f of None \<Rightarrow> None | Some g \<Rightarrow> dfn_arguments g)"

definition accumulators :: "ChunkData \<Rightarrow> ChunkToolCallData list" where
  "accumulators self = (case cd_tool_calls self of None \<Rightarrow> [] | Some tcs \<Rightarrow> tcs)"

text \<open>
  The accumulator the pieces of one index should merge into: the argument pieces
  concatenated, and for the identifier, the type and the name the last value given.
\<close>

definition merged_call :: "ChoiceDeltaToolCall list \<Rightarrow> int \<Rightarrow> ChunkToolCallData" where
  "merged_call mine ix =
     \<lparr>tc_index = ix, tc_id = last_given (map dt_id mine), tc_type = last_given (map dt_type mine),
      tc_function = \<lparr>fn_name = last_given (map piece_name mine),
                     fn_arguments = joined (map piece_arguments mine)\<rparr>\<rparr>"

definition first_occurrences :: "int list \<Rightarrow> int list" where
  "first_occurrences xs = rev (remdups (rev xs))"

definition merged_calls :: "ChoiceDeltaToolCall list \<Rightarrow> ChunkToolCallData list" where
  "merged_calls frs =
     map (\<lambda>ix. merged_call (fragments_of frs ix) ix) (first_occurrences (map dt_index frs))"

text \<open>
  A streamed response with two tool calls, the first split over two fragments with the
  second call between them.
\<close>

definition sample_tool_stream :: "ChoiceDelta list" where
  "sample_tool_stream =
     [tool_fragment 0 (Some ''call_1'') (Some ''function'') (Some ''search'') (Some ''{\"a\":''),
      tool_fragment 1 (Some ''call_2'') (Some ''function'') (Some ''get_item'') None,
      tool_fragment 0 None None None (Some ''1}'')]"

subsection \<open>Publishing\<close>

text \<open>The event an interim result is sent as: the pending text, the time and the type.\<close>

definition interim_event :: "string \<Rightarrow> real \<Rightarrow> py_dict" where
  "interim_event acc t =
     [(''delta'', PStr acc), (''timestamp'', PFloat (t * 1000)), (''type'', PStr ''interim'')]"


text \<open>
  A streaming step under way: a stream is attached, \<open>Hello\<close> has been accumulated, its
  last two characters not yet published, and the clock reads 101, 102, ... seconds.
\<close>

definition sample_stream_state :: proxy where
  "sample_stream_state =
     \<lparr>px_stream_id = Some ''stream-1'',
      px_stream_chunk =
        \<lparr>cd_content = Some ''Hello'', cd_role = Some ''assistant'', cd_tool_calls = None,
         cd_accumulated_delta = Some ''lo'', cd_last_stream_publish = 100, cd_tool_content = None\<rparr>,
      px_system_prompt = None, px_max_history = 20,
      px_history = Some [[(''ts'', PInt 1000), (''content'', PStr ''Be brief.''), (''role'', PStr ''system'')]],
      px_clock = (\<lambda>n. 101 + real n), px_reads = 0,
      px_pubsub_error = None, px_pushed = []\<rparr>"

subsection \<open>A streaming step of the data-source extension\<close>

text \<open>
  The start of a streaming step: a fresh accumulator, a history of the system prompt and
  the user's prompt, a stream attached, and a new \<open>ChatResponse\<close>.
\<close>

definition sample_turn_state :: proxy where
  "sample_turn_state =
     \<lparr>px_stream_id = Some ''stream-1'',
      px_stream_chunk = new_ChunkData,
      px_system_prompt = Some ''Be brief.'', px_max_history = 20,
      px_history = Some [[(''ts'', PInt 1000), (''content'', PStr ''Be brief.''), (''role'', PStr ''system'')],
                         [(''ts'', PInt 2000), (''content'', PStr ''Hi?''), (''role'', PStr ''user'')]],
      px_clock = (\<lambda>n. 101 + real n), px_reads = 0,
      px_pubsub_error = None, px_pushed = []\<rparr>"

definition new_ChatResponse :: ChatResponse where
  "new_ChatResponse = \<lparr>resp_thread_id = None, resp_message = None, resp_citations = None\<rparr>"

text \<open>Messages of a data-source batch: a piece of content, and a piece of the tool channel.\<close>

definition content_batch :: "string \<Rightarrow> bool option \<Rightarrow> DataSourceMessage" where
  "content_batch c e = \<lparr>dm_delta = Some \<lparr>dd_role = None, dd_content = Some c\<rparr>, dm_end_turn = e\<rparr>"

definition tool_batch :: "string \<Rightarrow> bool option \<Rightarrow> DataSourceMessage" where
  "tool_batch c e = \<lparr>dm_delta = Some \<lparr>dd_role = Some ''tool'', dd_content = Some c\<rparr>, dm_end_turn = e\<rparr>"

subsection \<open>A registry and a tool configuration\<close>

text \<open>
  A registry with one function, \<open>search\<close>, which stands for the repository's search
  function: it takes an optional \<open>query\<close> and an optional \<open>index\<close>. The configuration
  offers it under the name \<open>find_docs\<close> with the index fixed.
\<close>

definition sample_search :: tool_function where
  "sample_search kwargs =
     (case map_of kwargs ''query'' of
        None \<Rightarrow> Inr (PStr ''no query'')
      | Some q \<Rightarrow>
          (case q of
             PStr text \<Rightarrow>
               (case map_of kwargs ''index'' of
                  Some (PStr ix) \<Rightarrow> Inr (PStr (''results for '' @ text @ '' in '' @ ix))
                | _ \<Rightarrow> Inr (PStr (''results for '' @ text)))
           | _ \<Rightarrow> Inl TypeError))"

definition sample_registry :: FunctionRegistry where
  "sample_registry =
     [''search'' \<mapsto> (sample_search, ''Function to search across a dataset.'')]"

definition sample_config :: ChatConfig where
  "sample_config =
     \<lparr>cfg_functions =
        Some [\<lparr>fc_name = ''find_docs'', fc_function = ''search'',
               fc_description = ''Search the documents'',
               fc_args = Some [(''index'', PStr ''docs'')]\<rparr>]\<rparr>"

subsection \<open>Compaction\<close>

text \<open>The timestamp made from the \<open>k\<close>-th reading of the clock after the state \<open>st\<close>.\<close>

definition ts_at :: "proxy \<Rightarrow> nat \<Rightarrow> pyval" where
  "ts_at st k = PInt (millis (px_clock st (px_reads st + k)))"

text \<open>
  A conversation of three messages under a threshold of four, a completion service that
  answers every request with one summary, and a store without the thread.
\<close>

definition sample_long_state :: proxy where
  "sample_long_state =
     \<lparr>px_stream_id = Some ''stream-1'',
      px_stream_chunk = new_ChunkData,
      px_system_prompt = Some ''Be brief.'', px_max_history = 4,
      px_history = Some [[(''ts'', PInt 1000), (''content'', PStr ''Be brief.''), (''role'', PStr ''system'')],
                         [(''ts'', PInt 2000), (''content'', PStr ''Hi?''), (''role'', PStr ''user'')],
                         [(''content'', PStr ''Hello''), (''role'', PStr ''assistant''), (''ts'', PInt 3000)]],
      px_clock = (\<lambda>n. 101 + real n), px_reads = 0,
      px_pubsub_error = None, px_pushed = []\<rparr>"

definition sample_summariser :: "py_dict list \<Rightarrow> py_exception + ChatCompletionMessage list" where
  "sample_summariser messages = Inr [\<lparr>cm_content = Some ''Greetings were exchanged.'', cm_role = ''assistant''\<rparr>]"

definition no_stored_thread :: "string \<Rightarrow> py_exception + py_dict list option" where
  "no_stored_thread thread_id = Inr None"

subsection \<open>Three agents\<close>

text \<open>
  An agent service with the workers \<open>A\<close> and \<open>B\<close> and the interpreter \<open>I\<close>: every run
  completes but that of \<open>B\<close>, whose wait times out; and a processor configured with the three.
\<close>

definition sample_agents :: agent_service where
  "sample_agents =
     \<lparr>svc_lookup_assistant =
        (\<lambda>name. if name = ''A'' \<or> name = ''asst_A'' then Inr \<lparr>as_id = ''asst_A'', as_name = ''A''\<rparr>
                else if name = ''B'' \<or> name = ''asst_B'' then Inr \<lparr>as_id = ''asst_B'', as_name = ''B''\<rparr>
                else if name = ''I'' \<or> name = ''asst_I'' then Inr \<lparr>as_id = ''asst_I'', as_name = ''I''\<rparr>
                else Inl ValueError),
      svc_create_thread =
        (\<lambda>n. if n < 3 then Inr ([''thread_1'', ''thread_2'', ''thread_3''] ! n)
             else Inl (OtherError ''no more threads'')),
      svc_send_message = (\<lambda>prompt thread_id timeout_secs. None),
      svc_run_assistant = (\<lambda>assistant thread_id. Inr (''run_'' @ assistant)),
      svc_await_run_complete_or_fail =
        (\<lambda>thread_id run_id timeout_secs.
           if run_id = ''run_asst_B'' then Inl TimeoutError else Inr ''completed''),
      svc_list_messages =
        (\<lambda>thread_id.
           if thread_id = ''thread_1'' then
             Inr [\<lparr>tm_id = ''msg_A'', tm_assistant_id = Some ''asst_A'', tm_run_id = Some ''run_asst_A'',
                   tm_created_at = None, tm_content = [TextContent ''Four.'']\<rparr>]
           else if thread_id = ''thread_3'' then
             Inr [\<lparr>tm_id = ''msg_I'', tm_assistant_id = Some ''asst_I'', tm_run_id = Some ''run_asst_I'',
                   tm_created_at = None, tm_content = [TextContent ''The answer is four.'']\<rparr>]
           else Inr [])\<rparr>"

definition sample_processor :: processor where
  "sample_processor =
     \<lparr>pr_assistants = [''A'', ''B'', ''I''], pr_thread_id = None, pr_linked_threads = None,
      pr_clock = (\<lambda>n. 101 + real n), pr_reads = 0, pr_threads_created = 0\<rparr>"

section \<open>Properties of the streaming accumulator\<close>

lemma joined_Cons:
  "joined (x # xs) =
     (case x of
        None \<Rightarrow> joined xs
      | Some c \<Rightarrow> Some (c @ (case joined xs of None \<Rightarrow> [] | Some r \<Rightarrow> r)))"
  by (auto simp: joined_def list_all_iff split: option.splits)

lemma joined_snoc:
  "joined (xs @ [x]) = (case x of None \<Rightarrow> joined xs | Some a \<Rightarrow> accumulate (joined xs) a)"
  by (auto simp: joined_def accumulate_def list_all_iff split: option.splits)

lemma last_given_snoc:
  "last_given (xs @ [x]) = (case x of None \<Rightarrow> last_given xs | Some v \<Rightarrow> Some v)"
  by (auto simp: last_given_def split: option.splits)

lemma add_chunk_delta_content:
  "add_chunk_delta d s = Inr s' \<Longrightarrow>
   cd_content s' =
     (case dl_content d of None \<Rightarrow> cd_content s | Some c \<Rightarrow> accumulate (cd_content s) c)"
  by (auto simp: add_chunk_delta_def Let_def split: option.splits sum.splits)

lemma add_chunk_deltas_content:
  "add_chunk_deltas ds s = Inr s' \<Longrightarrow>
   cd_content s' =
     (case joined (map dl_content ds) of
        None \<Rightarrow> cd_content s
      | Some r \<Rightarrow> accumulate (cd_content s) r)"
proof (induction ds arbitrary: s)
  case Nil
  then show ?case by (simp add: joined_def)
next
  case (Cons d ds)
  from Cons.prems obtain s1 where s1: "add_chunk_delta d s = Inr s1"
    and rest: "add_chunk_deltas ds s1 = Inr s'"
    by (auto split: sum.splits)
  show ?case
    using Cons.IH [OF rest] add_chunk_delta_content [OF s1]
    by (auto simp: joined_Cons accumulate_def split: option.splits)
qed

lemma content_fragments_pair:
  "add_chunk_deltas [content_fragment x, content_fragment y] new_ChunkData =
     Inr (new_ChunkData\<lparr>cd_content := Some (x @ y), cd_accumulated_delta := Some (x @ y)\<rparr>)"
  by (simp add: add_chunk_delta_def content_fragment_def new_ChunkData_def accumulate_def)

text \<open>
  C7. Whenever a sequence of fragments has been applied in arrival order to a fresh
  accumulator, the accumulated content is the concatenation of the fragments' content fields
  in that order. The operation is not commutative: two content fragments applied in the two
  orders give the same accumulator only if their texts commute under concatenation, and
  \<open>ab\<close>, \<open>cd\<close> give different ones.
\<close>

theorem C7_content_is_concatenation:
  "(add_chunk_deltas ds new_ChunkData = Inr s \<longrightarrow> cd_content s = joined (map dl_content ds))
   \<and> (\<forall>x y. (add_chunk_deltas [content_fragment x, content_fragment y] new_ChunkData
              = add_chunk_deltas [content_fragment y, content_fragment x] new_ChunkData)
             = (x @ y = y @ x))
   \<and> add_chunk_deltas [content_fragment ''ab'', content_fragment ''cd''] new_ChunkData
       \<noteq> add_chunk_deltas [content_fragment ''cd'', content_fragment ''ab''] new_ChunkData"
proof (intro conjI impI allI)
  assume "add_chunk_deltas ds new_ChunkData = Inr s"
  from add_chunk_deltas_content [OF this]
  show "cd_content s = joined (map dl_content ds)"
    by (simp add: new_ChunkData_def accumulate_def split: option.splits)
next
  fix x y
  show "(add_chunk_deltas [content_fragment x, content_fragment y] new_ChunkData
              = add_chunk_deltas [content_fragment y, content_fragment x] new_ChunkData)
             = (x @ y = y @ x)"
    unfolding content_fragments_pair by (auto simp: new_ChunkData_def)
next
  show "add_chunk_deltas [content_fragment ''ab'', content_fragment ''cd''] new_ChunkData
       \<noteq> add_chunk_deltas [content_fragment ''cd'', content_fragment ''ab''] new_ChunkData"
    unfolding content_fragments_pair by (simp add: new_ChunkData_def)
qed

theorem C7_content_is_concatenation_witness:
  "add_chunk_deltas
     [\<lparr>dl_role = Some ''assistant'', dl_content = None, dl_tool_calls = None\<rparr>,
      content_fragment ''Hel'', content_fragment ''lo'',
      tool_fragment 0 (Some ''call_1'') (Some ''function'') (Some ''search'') (Some ''{}'')]
     new_ChunkData
   = Inr \<lparr>cd_content = Some ''Hello'', cd_role = Some ''assistant'',
          cd_tool_calls =
            Some [\<lparr>tc_index = 0, tc_id = Some ''call_1'', tc_type = Some ''function'',
                   tc_function = \<lparr>fn_name = Some ''search'', fn_arguments = Some ''{}''\<rparr>\<rparr>],
          cd_accumulated_delta = Some ''Hello'', cd_last_stream_publish = 0,
          cd_tool_content = None\<rparr>
   \<and> Some ''Hello''
       = joined (map dl_content
           [\<lparr>dl_role = Some ''assistant'', dl_content = None, dl_tool_calls = None\<rparr>,
            content_fragment ''Hel'', content_fragment ''lo'',
            tool_fragment 0 (Some ''call_1'') (Some ''function'') (Some ''search'') (Some ''{}'')])"
proof -
  have run: "add_chunk_deltas
     [\<lparr>dl_role = Some ''assistant'', dl_content = None, dl_tool_calls = None\<rparr>,
      content_fragment ''Hel'', content_fragment ''lo'',
      tool_fragment 0 (Some ''call_1'') (Some ''function'') (Some ''search'') (Some ''{}'')]
     new_ChunkData
   = Inr \<lparr>cd_content = Some ''Hello'', cd_role = Some ''assistant'',
          cd_tool_calls =
            Some [\<lparr>tc_index = 0, tc_id = Some ''call_1'', tc_type = Some ''function'',
                   tc_function = \<lparr>fn_name = Some ''search'', fn_arguments = Some ''{}''\<rparr>\<rparr>],
          cd_accumulated_delta = Some ''Hello'', cd_last_stream_publish = 0,
          cd_tool_content = None\<rparr>"
    by (simp add: add_chunk_delta_def content_fragment_def tool_fragment_def new_ChunkData_def
        accumulate_def add_tool_delta_def merge_tool_call_def new_ChunkToolCallData_def)
  from C7_content_is_concatenation [THEN conjunct1, rule_format, OF run] run
  show ?thesis by simp
qed


subsection \<open>Tool-call fragments\<close>

lemma add_tool_deltas_append:
  "add_tool_deltas (xs @ ys) tcs =
     (case add_tool_deltas xs tcs of Inl e \<Rightarrow> Inl e | Inr tcs' \<Rightarrow> add_tool_deltas ys tcs')"
  by (induction xs arbitrary: tcs) (auto split: sum.splits)

lemma find_tool_call_Some:
  "find_tool_call tcs ix = Some i \<Longrightarrow> i < length tcs \<and> tc_index (tcs ! i) = ix"
  by (induction tcs arbitrary: i) (auto split: if_splits)

lemma find_tool_call_None:
  "(find_tool_call tcs ix = None) = (ix \<notin> set (map tc_index tcs))"
  by (induction tcs) auto

lemma merge_into_merged:
  assumes "merge_tool_call f (merged_call mine (dt_index f)) = Inr t"
  shows "t = merged_call (mine @ [f]) (dt_index f)"
  using assms
  by (auto simp: merge_tool_call_def merged_call_def last_given_snoc joined_snoc piece_name_def
      piece_arguments_def split: if_splits option.splits)

lemma merge_into_new:
  assumes "merge_tool_call f new_ChunkToolCallData = Inr t"
  shows "t = merged_call [f] (dt_index f)"
  using assms
  by (auto simp: merge_tool_call_def merged_call_def last_given_def joined_def piece_name_def
      piece_arguments_def new_ChunkToolCallData_def accumulate_def split: if_splits option.splits)

lemma first_occurrences_snoc:
  "first_occurrences (xs @ [x]) =
     (if x \<in> set xs then first_occurrences xs else first_occurrences xs @ [x])"
  by (simp add: first_occurrences_def)

lemma distinct_first_occurrences: "distinct (first_occurrences xs)"
  by (simp add: first_occurrences_def)

lemma set_first_occurrences: "set (first_occurrences xs) = set xs"
  by (simp add: first_occurrences_def)

lemma fragments_of_snoc:
  "fragments_of (frs @ [f]) ix =
     (if dt_index f = ix then fragments_of frs ix @ [f] else fragments_of frs ix)"
  by (simp add: fragments_of_def)

lemma fragments_of_absent:
  "ix \<notin> set (map dt_index frs) \<Longrightarrow> fragments_of frs ix = []"
  by (induction frs) (auto simp: fragments_of_def)


lemma tc_index_merged_call: "tc_index (merged_call mine ix) = ix"
  by (simp add: merged_call_def)

lemma map_tc_index_merged_calls:
  "map tc_index (merged_calls frs) = first_occurrences (map dt_index frs)"
  by (simp add: merged_calls_def comp_def tc_index_merged_call)

lemma add_tool_delta_merged:
  assumes "add_tool_delta f (merged_calls frs) = Inr tcs"
  shows "tcs = merged_calls (frs @ [f])"
proof (cases "find_tool_call (merged_calls frs) (dt_index f)")
  case None
  then have absent: "dt_index f \<notin> set (map dt_index frs)"
    by (simp add: find_tool_call_None map_tc_index_merged_calls set_first_occurrences)
  from assms None obtain t where t: "merge_tool_call f new_ChunkToolCallData = Inr t"
    and tcs: "tcs = merged_calls frs @ [t]"
    by (auto simp: add_tool_delta_def split: sum.splits)
  have same: "map (\<lambda>ix. merged_call (fragments_of (frs @ [f]) ix) ix) (first_occurrences (map dt_index frs))
      = merged_calls frs"
    unfolding merged_calls_def
    using absent by (intro map_cong refl) (auto simp: fragments_of_snoc set_first_occurrences)
  show ?thesis
    using absent same
    by (simp add: tcs merge_into_new [OF t] merged_calls_def first_occurrences_snoc
        fragments_of_snoc fragments_of_absent del: map_map)
next
  case (Some i)
  from find_tool_call_Some [OF Some]
  have i: "i < length (merged_calls frs)" and ix: "tc_index (merged_calls frs ! i) = dt_index f"
    by simp_all
  let ?ixs = "first_occurrences (map dt_index frs)"
  have len: "length (merged_calls frs) = length ?ixs" by (simp add: merged_calls_def)
  have at_i: "?ixs ! i = dt_index f"
    using i ix by (simp add: merged_calls_def tc_index_merged_call)
  have present: "dt_index f \<in> set (map dt_index frs)"
    using at_i i len set_first_occurrences [of "map dt_index frs"] nth_mem [of i ?ixs] by auto
  have old: "merged_calls frs ! i = merged_call (fragments_of frs (dt_index f)) (dt_index f)"
    using i at_i by (simp add: merged_calls_def)
  from assms Some obtain t where t: "merge_tool_call f (merged_calls frs ! i) = Inr t"
    and tcs: "tcs = (merged_calls frs)[i := t]"
    by (auto simp: add_tool_delta_def split: sum.splits)
  have t_eq: "t = merged_call (fragments_of frs (dt_index f) @ [f]) (dt_index f)"
    using t unfolding old by (rule merge_into_merged)
  have ixs': "first_occurrences (map dt_index (frs @ [f])) = ?ixs"
    using present by (simp add: first_occurrences_snoc)
  show ?thesis
  proof (rule nth_equalityI)
    show "length tcs = length (merged_calls (frs @ [f]))"
      by (simp add: tcs merged_calls_def ixs' del: map_append)
  next
    fix j assume "j < length tcs"
    then have j: "j < length ?ixs" by (simp add: tcs len)
    show "tcs ! j = merged_calls (frs @ [f]) ! j"
    proof (cases "j = i")
      case True
      have "merged_calls (frs @ [f]) ! i = merged_call (fragments_of (frs @ [f]) (dt_index f)) (dt_index f)"
        using j True at_i unfolding merged_calls_def ixs' by simp
      then show ?thesis using True i by (simp add: tcs t_eq fragments_of_snoc)
    next
      case False
      have "?ixs ! j \<noteq> ?ixs ! i"
        using False j i len distinct_first_occurrences [of "map dt_index frs"]
        by (simp add: nth_eq_iff_index_eq)
      then have "fragments_of (frs @ [f]) (?ixs ! j) = fragments_of frs (?ixs ! j)"
        by (simp add: fragments_of_snoc at_i)
      then have "merged_calls (frs @ [f]) ! j = merged_calls frs ! j"
        using j unfolding merged_calls_def ixs' by simp
      then show ?thesis using False by (simp add: tcs)
    qed
  qed
qed

lemma add_tool_deltas_merged:
  "add_tool_deltas fs (merged_calls frs) = Inr tcs \<Longrightarrow> tcs = merged_calls (frs @ fs)"
proof (induction fs arbitrary: frs)
  case Nil
  then show ?case by simp
next
  case (Cons f fs)
  from Cons.prems obtain tcs1 where one: "add_tool_delta f (merged_calls frs) = Inr tcs1"
    and rest: "add_tool_deltas fs tcs1 = Inr tcs"
    by (auto split: sum.splits)
  from add_tool_delta_merged [OF one] rest Cons.IH [of "frs @ [f]"]
  show ?case by simp
qed


lemma add_chunk_delta_accumulators:
  "add_chunk_delta d s = Inr s' \<Longrightarrow>
   add_tool_deltas (case dl_tool_calls d of None \<Rightarrow> [] | Some ts \<Rightarrow> ts) (accumulators s)
     = Inr (accumulators s')"
  by (auto simp: add_chunk_delta_def Let_def accumulators_def split: option.splits sum.splits)

lemma add_chunk_deltas_accumulators:
  "add_chunk_deltas ds s = Inr s' \<Longrightarrow>
   add_tool_deltas (tool_fragments ds) (accumulators s) = Inr (accumulators s')"
proof (induction ds arbitrary: s)
  case Nil
  then show ?case by (simp add: tool_fragments_def)
next
  case (Cons d ds)
  from Cons.prems obtain s1 where s1: "add_chunk_delta d s = Inr s1"
    and rest: "add_chunk_deltas ds s1 = Inr s'"
    by (auto split: sum.splits)
  have "tool_fragments (d # ds)
      = (case dl_tool_calls d of None \<Rightarrow> [] | Some ts \<Rightarrow> ts) @ tool_fragments ds"
    by (simp add: tool_fragments_def)
  then show ?case
    using add_chunk_delta_accumulators [OF s1] Cons.IH [OF rest]
    by (simp add: add_tool_deltas_append)
qed

lemma accumulators_merged:
  assumes "add_chunk_deltas ds new_ChunkData = Inr s"
  shows "accumulators s = merged_calls (tool_fragments ds)"
proof -
  have "accumulators new_ChunkData = merged_calls []"
    by (simp add: accumulators_def new_ChunkData_def merged_calls_def first_occurrences_def)
  with add_chunk_deltas_accumulators [OF assms]
  have "add_tool_deltas (tool_fragments ds) (merged_calls []) = Inr (accumulators s)" by simp
  from add_tool_deltas_merged [OF this] show ?thesis by simp
qed

text \<open>
  C8, as amended. Whenever a sequence of fragments has been applied in arrival order to a
  fresh accumulator, there is exactly one tool-call accumulator for each position index that
  occurs in the sequence; its argument text is the concatenation, in arrival order, of the
  argument pieces of the fragments of that index, and its identifier, type and function name
  are each the last value a fragment of that index gave: a fragment that omits one of them
  leaves it as it is, and a fragment that gives one replaces the value set before.
\<close>

theorem C8_fragments_merge_by_index:
  assumes "add_chunk_deltas ds new_ChunkData = Inr s"
  shows "distinct (map tc_index (accumulators s))
    \<and> set (map tc_index (accumulators s)) = set (map dt_index (tool_fragments ds))
    \<and> (\<forall>t \<in> set (accumulators s).
         fn_arguments (tc_function t)
           = joined (map piece_arguments (fragments_of (tool_fragments ds) (tc_index t)))
         \<and> tc_id t = last_given (map dt_id (fragments_of (tool_fragments ds) (tc_index t)))
         \<and> tc_type t = last_given (map dt_type (fragments_of (tool_fragments ds) (tc_index t)))
         \<and> fn_name (tc_function t)
           = last_given (map piece_name (fragments_of (tool_fragments ds) (tc_index t))))"
proof -
  note acc = accumulators_merged [OF assms]
  have ixs: "map tc_index (accumulators s) = first_occurrences (map dt_index (tool_fragments ds))"
    by (simp add: acc map_tc_index_merged_calls)
  have each: "t = merged_call (fragments_of (tool_fragments ds) (tc_index t)) (tc_index t)"
    if "t \<in> set (accumulators s)" for t
    using that unfolding acc merged_calls_def by (auto simp: tc_index_merged_call)
  show ?thesis
  proof (intro conjI ballI)
    show "distinct (map tc_index (accumulators s))"
      by (simp add: ixs distinct_first_occurrences)
    show "set (map tc_index (accumulators s)) = set (map dt_index (tool_fragments ds))"
      by (simp only: ixs set_first_occurrences)
  next
    fix t assume t: "t \<in> set (accumulators s)"
    show "fn_arguments (tc_function t)
           = joined (map piece_arguments (fragments_of (tool_fragments ds) (tc_index t)))"
      by (subst each [OF t]) (simp add: merged_call_def)
    show "tc_id t = last_given (map dt_id (fragments_of (tool_fragments ds) (tc_index t)))"
      by (subst each [OF t]) (simp add: merged_call_def)
    show "tc_type t = last_given (map dt_type (fragments_of (tool_fragments ds) (tc_index t)))"
      by (subst each [OF t]) (simp add: merged_call_def)
    show "fn_name (tc_function t)
           = last_given (map piece_name (fragments_of (tool_fragments ds) (tc_index t)))"
      by (subst each [OF t]) (simp add: merged_call_def)
  qed
qed


lemma sample_tool_stream_run:
  "add_chunk_deltas sample_tool_stream new_ChunkData
   = Inr (new_ChunkData\<lparr>cd_tool_calls :=
        Some [\<lparr>tc_index = 0, tc_id = Some ''call_1'', tc_type = Some ''function'',
               tc_function = \<lparr>fn_name = Some ''search'', fn_arguments = Some ''{\"a\":1}''\<rparr>\<rparr>,
              \<lparr>tc_index = 1, tc_id = Some ''call_2'', tc_type = Some ''function'',
               tc_function = \<lparr>fn_name = Some ''get_item'', fn_arguments = None\<rparr>\<rparr>]\<rparr>)"
  by (simp add: sample_tool_stream_def add_chunk_delta_def tool_fragment_def new_ChunkData_def
        accumulate_def add_tool_delta_def merge_tool_call_def new_ChunkToolCallData_def)

theorem C8_fragments_merge_by_index_witness:
  "add_chunk_deltas sample_tool_stream new_ChunkData
   = Inr (new_ChunkData\<lparr>cd_tool_calls :=
        Some [\<lparr>tc_index = 0, tc_id = Some ''call_1'', tc_type = Some ''function'',
               tc_function = \<lparr>fn_name = Some ''search'', fn_arguments = Some ''{\"a\":1}''\<rparr>\<rparr>,
              \<lparr>tc_index = 1, tc_id = Some ''call_2'', tc_type = Some ''function'',
               tc_function = \<lparr>fn_name = Some ''get_item'', fn_arguments = None\<rparr>\<rparr>]\<rparr>)
   \<and> set (map dt_index (tool_fragments sample_tool_stream)) = {0, 1}
   \<and> joined (map piece_arguments (fragments_of (tool_fragments sample_tool_stream) 0))
       = Some ''{\"a\":1}''
   \<and> last_given (map dt_id (fragments_of (tool_fragments sample_tool_stream) 0)) = Some ''call_1''
   \<and> last_given (map dt_type (fragments_of (tool_fragments sample_tool_stream) 0))
       = Some ''function''
   \<and> last_given (map piece_name (fragments_of (tool_fragments sample_tool_stream) 0))
       = Some ''search''"
proof -
  note run = sample_tool_stream_run
  note merged = C8_fragments_merge_by_index [OF run]
  have acc: "accumulators (new_ChunkData\<lparr>cd_tool_calls :=
        Some [\<lparr>tc_index = 0, tc_id = Some ''call_1'', tc_type = Some ''function'',
               tc_function = \<lparr>fn_name = Some ''search'', fn_arguments = Some ''{\"a\":1}''\<rparr>\<rparr>,
              \<lparr>tc_index = 1, tc_id = Some ''call_2'', tc_type = Some ''function'',
               tc_function = \<lparr>fn_name = Some ''get_item'', fn_arguments = None\<rparr>\<rparr>]\<rparr>)
      = [\<lparr>tc_index = 0, tc_id = Some ''call_1'', tc_type = Some ''function'',
               tc_function = \<lparr>fn_name = Some ''search'', fn_arguments = Some ''{\"a\":1}''\<rparr>\<rparr>,
              \<lparr>tc_index = 1, tc_id = Some ''call_2'', tc_type = Some ''function'',
               tc_function = \<lparr>fn_name = Some ''get_item'', fn_arguments = None\<rparr>\<rparr>]"
    by (simp add: accumulators_def new_ChunkData_def)
  from merged show ?thesis
    unfolding acc using run by auto
qed

text \<open>
  The claim as stated fails: a second fragment of the same index that carries an
  identifier, a type and a name replaces all three.
\<close>

theorem C8_counterexample:
  "add_chunk_deltas
     [tool_fragment 0 (Some ''call_1'') (Some ''function'') (Some ''search'') (Some ''{\"a\":'')]
     new_ChunkData
   = Inr (new_ChunkData\<lparr>cd_tool_calls :=
        Some [\<lparr>tc_index = 0, tc_id = Some ''call_1'', tc_type = Some ''function'',
               tc_function = \<lparr>fn_name = Some ''search'', fn_arguments = Some ''{\"a\":''\<rparr>\<rparr>]\<rparr>)
   \<and> add_chunk_deltas
     [tool_fragment 0 (Some ''call_1'') (Some ''function'') (Some ''search'') (Some ''{\"a\":''),
      tool_fragment 0 (Some ''call_2'') (Some ''other'') (Some ''lookup'') (Some ''1}'')]
     new_ChunkData
   = Inr (new_ChunkData\<lparr>cd_tool_calls :=
        Some [\<lparr>tc_index = 0, tc_id = Some ''call_2'', tc_type = Some ''other'',
               tc_function = \<lparr>fn_name = Some ''lookup'', fn_arguments = Some ''{\"a\":1}''\<rparr>\<rparr>]\<rparr>)"
  by (simp add: add_chunk_delta_def tool_fragment_def new_ChunkData_def
        accumulate_def add_tool_delta_def merge_tool_call_def new_ChunkToolCallData_def)

section \<open>Properties of publishing\<close>

lemma to_message_interim:
  "to_message \<lparr>sm_content = PDict [(''delta'', PStr acc)], sm_message_type = ''interim'',
               sm_timestamp = t * 1000\<rparr> = interim_event acc t"
  by (simp add: to_message_def dict_update_def interim_event_def)

lemma publish_interim_result_cases:
  "publish_interim_result force freq st =
     (if (force \<or> px_clock st (px_reads st) - cd_last_stream_publish (px_stream_chunk st) > freq)
         \<and> cd_accumulated_delta (px_stream_chunk st) \<noteq> None
         \<and> cd_accumulated_delta (px_stream_chunk st) \<noteq> Some []
      then (if px_stream_id st \<noteq> None \<and> px_pubsub_error st \<noteq> None
            then Inl (the (px_pubsub_error st))
            else Inr (st\<lparr>px_reads := px_reads st + (if force then 2 else 3),
                        px_pushed := px_pushed st @
                          (case px_stream_id st of
                             None \<Rightarrow> []
                           | Some sid \<Rightarrow>
                               [(sid, interim_event (the (cd_accumulated_delta (px_stream_chunk st)))
                                       (px_clock st (px_reads st + (if force then 0 else 1))))]),
                        px_stream_chunk := (px_stream_chunk st)
                          \<lparr>cd_last_stream_publish :=
                              px_clock st (px_reads st + (if force then 1 else 2)),
                           cd_accumulated_delta := None\<rparr>\<rparr>))
      else Inr (st\<lparr>px_reads := px_reads st + (if force then 0 else 1)\<rparr>))"
  by (auto simp: publish_interim_result_def push_update_to_stream_def read_clock_def Let_def
      and_then_def to_message_interim split: option.splits)


text \<open>
  C10. Whenever \<open>_publish_interim_result\<close> returns, the accumulated content, the role,
  the tool-call accumulators and the tool channel of the accumulator are as before, and so
  is the history. If the publish is due (forced, or more than the interval after the last
  one) and the pending buffer is not empty, the buffer is cleared, the timestamp is the
  clock's next reading and one event holding the pending text is sent to the stream, if
  the request has one; otherwise the accumulator is unchanged and nothing is sent.
\<close>

theorem C10_publish_frame:
  assumes "publish_interim_result force_publish publish_frequency st = Inr st'"
  shows "cd_content (px_stream_chunk st') = cd_content (px_stream_chunk st)
    \<and> cd_role (px_stream_chunk st') = cd_role (px_stream_chunk st)
    \<and> cd_tool_calls (px_stream_chunk st') = cd_tool_calls (px_stream_chunk st)
    \<and> cd_tool_content (px_stream_chunk st') = cd_tool_content (px_stream_chunk st)
    \<and> px_history st' = px_history st
    \<and> (if (force_publish
             \<or> px_clock st (px_reads st) - cd_last_stream_publish (px_stream_chunk st)
                 > publish_frequency)
           \<and> cd_accumulated_delta (px_stream_chunk st) \<noteq> None
           \<and> cd_accumulated_delta (px_stream_chunk st) \<noteq> Some []
        then cd_accumulated_delta (px_stream_chunk st') = None
           \<and> cd_last_stream_publish (px_stream_chunk st')
               = px_clock st (px_reads st + (if force_publish then 1 else 2))
           \<and> px_pushed st' = px_pushed st @
               (case px_stream_id st of
                  None \<Rightarrow> []
                | Some stream_id \<Rightarrow>
                    [(stream_id,
                      interim_event (the (cd_accumulated_delta (px_stream_chunk st)))
                        (px_clock st (px_reads st + (if force_publish then 0 else 1))))])
        else px_stream_chunk st' = px_stream_chunk st \<and> px_pushed st' = px_pushed st)"
  using assms unfolding publish_interim_result_cases
  by (auto split: if_splits)

theorem C10_publish_frame_witness:
  "publish_interim_result False (2/5) sample_stream_state
     = Inr (sample_stream_state
          \<lparr>px_reads := 3,
           px_pushed := [(''stream-1'', interim_event ''lo'' 102)],
           px_stream_chunk :=
             \<lparr>cd_content = Some ''Hello'', cd_role = Some ''assistant'', cd_tool_calls = None,
              cd_accumulated_delta = None, cd_last_stream_publish = 103, cd_tool_content = None\<rparr>\<rparr>)
   \<and> cd_content (px_stream_chunk sample_stream_state) = Some ''Hello''
   \<and> px_clock sample_stream_state (px_reads sample_stream_state)
        - cd_last_stream_publish (px_stream_chunk sample_stream_state) > 2/5"
proof -
  have run: "publish_interim_result False (2/5) sample_stream_state
     = Inr (sample_stream_state
          \<lparr>px_reads := 3,
           px_pushed := [(''stream-1'', interim_event ''lo'' 102)],
           px_stream_chunk :=
             \<lparr>cd_content = Some ''Hello'', cd_role = Some ''assistant'', cd_tool_calls = None,
              cd_accumulated_delta = None, cd_last_stream_publish = 103, cd_tool_content = None\<rparr>\<rparr>)"
    by (simp add: publish_interim_result_cases sample_stream_state_def)
  from C10_publish_frame [OF run] run show ?thesis
    by (simp add: sample_stream_state_def)
qed

section \<open>The streaming step of the data-source extension\<close>

lemma sample_citations_text:
  "json_loads ''{\"citations\": [{\"content\": \"abc\", \"filepath\": \"a.md\"}]}''
   = Inr (PDict [(''citations'', PList [PDict [(''content'', PStr ''abc''), (''filepath'', PStr ''a.md'')]])])"
  by code_simp

lemmas stream_step_defs =
  process_stream_chunk_from_data_extensions_api_def add_data_source_delta_def
  content_batch_def tool_batch_def msg_end_turn_def accumulate_def and_then_def
  publish_interim_result_cases interim_event_def has_tool_citations_def get_tool_citations_def
  py_get_def py_in_def py_iter_def tool_citation_def field_if_present_def new_ChatCitation_def
  citation_to_api_response_def add_message_to_thread_def read_clock_def dict_set_def
  append_message_def opt_str_def millis_def new_ChatResponse_def new_ChunkData_def
  sample_turn_state_def

lemma more_steps_is_end_turn:
  assumes "process_stream_chunk_from_data_extensions_api loads messages response st
           = Inr (more_steps, response', st')"
  shows "\<exists>content_updated chunk.
           add_data_source_delta messages (px_stream_chunk st)
             = Inr (more_steps, content_updated, chunk)"
  using assms
  by (auto simp: process_stream_chunk_from_data_extensions_api_def and_then_def
      split: sum.splits prod.splits if_splits)


text \<open>
  C2. The value \<open>__process_stream_chunk_from_data_extensions_api\<close> returns as
  \<open>more_steps\<close> is the end-of-turn flag itself, not its negation: a batch without the
  marker returns \<open>False\<close> (no more steps), and a batch whose last message carries the
  marker appends the message to the history and returns \<open>True\<close> (more steps).
\<close>

theorem C2_more_steps_is_inverted:
  "map_sum (\<lambda>e. e) fst
     (process_stream_chunk_from_data_extensions_api json_loads
        [content_batch ''Hi'' None] new_ChatResponse sample_turn_state)
   = Inr False
   \<and> map_sum (\<lambda>e. e) fst
     (process_stream_chunk_from_data_extensions_api json_loads
        [tool_batch ''{\"citations\": [{\"content\": \"abc\", \"filepath\": \"a.md\"}]}'' (Some False),
         content_batch ''Hi'' (Some True)]
        new_ChatResponse sample_turn_state)
   = Inr True"
  by (simp add: stream_step_defs sample_citations_text)

section \<open>Properties of tool dispatch\<close>

text \<open>
  \<open>kwargs.update(args)\<close>: the fixed arguments win over the caller's of the same name.
\<close>

lemma dict_update_lookup:
  assumes "distinct (map fst args)"
  shows "map_of (dict_update kwargs args) = map_of kwargs ++ map_of args"
proof -
  have "map_of (fold (\<lambda>(k, v) acc. AList.update k v acc) args kwargs) = map_of kwargs ++ map_of args"
    if "distinct (map fst args)" for kwargs
    using that
  proof (induction args arbitrary: kwargs)
    case Nil
    show ?case by simp
  next
    case (Cons a args)
    obtain k v where a: "a = (k, v)" by (cases a)
    from Cons.prems have absent: "map_of args k = None" and rest: "distinct (map fst args)"
      by (auto simp: a map_of_eq_None_iff)
    show ?case
      using absent by (auto simp: a Cons.IH [OF rest] update_conv' map_add_def fun_eq_iff
          split: option.splits)
  qed
  with assms show ?thesis by (simp add: dict_update_def)
qed

lemma invoke_function_tool_matched:
  assumes "get_function_config config function_name = Matched f"
    and "fc_args f = Some args"
    and "registry (fc_function f) = Some (func, description)"
  shows "invoke_function_tool registry config function_name kwargs = func (dict_update kwargs args)"
  using assms by (simp add: invoke_function_tool_def registry_getitem_def and_then_def)

lemma invoke_function_tool_fallback:
  assumes "get_function_config config function_name = PyNone"
    and "registry function_name = Some (func, description)"
  shows "invoke_function_tool registry config function_name kwargs = func kwargs"
  using assms
  by (simp add: invoke_function_tool_def registry_getitem_def registry_contains_def and_then_def)

lemma sample_args_text:
  "json_loads ''{\"query\": \"x\"}'' = Inr (PDict [(''query'', PStr ''x'')])"
  by code_simp

lemma truncated_args_text: "json_loads ''{\"query\": '' = Inl JSONDecodeError"
  by code_simp

text \<open>
  C1. With no per-conversation configuration, or one without a list of functions, the
  resolver does not fall back to the registry: \<open>get_function_config\<close> returns \<open>False\<close>,
  which is taken for a matching entry, and the call ends in AttributeError whatever the
  registry holds; the two callers turn that into \<open>"Failed"\<close>. The same call with a
  configuration that lists other tools does reach the registry.
\<close>

theorem C1_no_configuration_no_fallback:
  "invoke_function_tool registry None function_name kwargs = Inl AttributeError
   \<and> invoke_function_tool registry (Some \<lparr>cfg_functions = None\<rparr>) function_name kwargs
       = Inl AttributeError
   \<and> registry_contains sample_registry ''search''
   \<and> invoke_function_tool sample_registry None ''search'' [(''query'', PStr ''x'')]
       = Inl AttributeError
   \<and> completions_invoke_function_tool json_loads dumps str sample_registry None ''search''
        (Some ''{\"query\": \"x\"}'') = Inr ''Failed''
   \<and> invoke_function_tool sample_registry (Some sample_config) ''search'' [(''query'', PStr ''x'')]
       = Inr (PStr ''results for x'')"
  by (simp add: invoke_function_tool_def get_function_config_def registry_contains_def
      sample_registry_def completions_invoke_function_tool_def parse_function_args_def
      sample_args_text and_then_def invoke_and_normalise_def sample_config_def
      registry_getitem_def sample_search_def)

text \<open>
  C5, as amended. When a per-conversation list of tools exists and has no entry of the
  name, and the name is not in the registry, the resolver \<open>_invoke_function_tool\<close> raises
  the dispatch error (ValueError); both callers catch it as they catch an exception raised
  inside a tool, and return \<open>"Failed"\<close> as the tool's output whenever the argument text
  could be read.
\<close>

theorem C5_unknown_tool_is_failed:
  assumes "get_function_config config function_name = PyNone"
    and "\<not> registry_contains registry function_name"
  shows "invoke_function_tool registry config function_name kwargs = Inl ValueError
    \<and> (parse_function_args loads function_args = Inr args \<longrightarrow>
         completions_invoke_function_tool loads dumps str registry config function_name function_args
           = Inr ''Failed''
       \<and> assistants_invoke_function_tool loads dumps str registry config function_name function_args
            call_id
           = Inr \<lparr>out_output = ''Failed'', out_tool_call_id = call_id\<rparr>)"
  using assms
  by (auto simp: invoke_function_tool_def completions_invoke_function_tool_def
      assistants_invoke_function_tool_def invoke_and_normalise_def and_then_def
      split: pyval.splits)

theorem C5_unknown_tool_is_failed_witness:
  "get_function_config (Some sample_config) ''no_such_tool'' = PyNone
   \<and> \<not> registry_contains sample_registry ''no_such_tool''
   \<and> parse_function_args json_loads (Some ''{\"query\": \"x\"}'') = Inr (PDict [(''query'', PStr ''x'')])
   \<and> invoke_function_tool sample_registry (Some sample_config) ''no_such_tool'' [(''query'', PStr ''x'')]
      = Inl ValueError
   \<and> (\<forall>dumps str.
        completions_invoke_function_tool json_loads dumps str sample_registry (Some sample_config)
          ''no_such_tool'' (Some ''{\"query\": \"x\"}'') = Inr ''Failed''
      \<and> assistants_invoke_function_tool json_loads dumps str sample_registry (Some sample_config)
          ''no_such_tool'' (Some ''{\"query\": \"x\"}'') ''call_1''
          = Inr \<lparr>out_output = ''Failed'', out_tool_call_id = ''call_1''\<rparr>)"
proof -
  have a: "get_function_config (Some sample_config) ''no_such_tool'' = PyNone"
    by (simp add: get_function_config_def sample_config_def)
  have b: "\<not> registry_contains sample_registry ''no_such_tool''"
    by (simp add: registry_contains_def sample_registry_def)
  have c: "parse_function_args json_loads (Some ''{\"query\": \"x\"}'') = Inr (PDict [(''query'', PStr ''x'')])"
    by (simp add: parse_function_args_def sample_args_text)
  from C5_unknown_tool_is_failed [OF a b, of "[(''query'', PStr ''x'')]" json_loads
      "Some ''{\"query\": \"x\"}''" "PDict [(''query'', PStr ''x'')]"] a b c
  show ?thesis by simp
qed

text \<open>
  The claim as stated fails: for a name that is in neither place the caller gets the string
  \<open>"Failed"\<close>, not an error.
\<close>

theorem C5_counterexample:
  "\<forall>dumps str.
     completions_invoke_function_tool json_loads dumps str sample_registry (Some sample_config)
       ''no_such_tool'' (Some ''{\"query\": \"x\"}'') = Inr ''Failed''"
  by (simp add: completions_invoke_function_tool_def parse_function_args_def sample_args_text
      and_then_def invoke_and_normalise_def invoke_function_tool_def get_function_config_def
      sample_config_def registry_contains_def sample_registry_def)

text \<open>
  C4, as amended. When the argument text is absent (\<open>None\<close>), the function is invoked with
  an empty argument set. When it is present and the JSON parser rejects it, the parser's
  exception leaves both callers, before any function is resolved or invoked: the parse stands
  outside the handler that turns failures into \<open>"Failed"\<close>.
\<close>

theorem C4_malformed_arguments_propagate:
  "completions_invoke_function_tool loads dumps str registry config function_name None
     = Inr (case and_then (invoke_function_tool registry config function_name [])
                  (result_to_string dumps str) of
              Inl e \<Rightarrow> ''Failed''
            | Inr result \<Rightarrow> result)
   \<and> assistants_invoke_function_tool loads dumps str registry config function_name None call_id
     = Inr \<lparr>out_output =
              (case and_then (invoke_function_tool registry config function_name [])
                      (result_to_string dumps str) of
                 Inl e \<Rightarrow> ''Failed''
               | Inr result \<Rightarrow> result),
            out_tool_call_id = call_id\<rparr>
   \<and> (loads txt = Inl e \<longrightarrow>
        completions_invoke_function_tool loads dumps str registry config function_name (Some txt)
          = Inl e
      \<and> assistants_invoke_function_tool loads dumps str registry config function_name (Some txt)
          call_id = Inl e)"
  by (simp add: completions_invoke_function_tool_def assistants_invoke_function_tool_def
      parse_function_args_def and_then_def invoke_and_normalise_def)

theorem C4_malformed_arguments_propagate_witness:
  "json_loads ''{\"query\": '' = Inl JSONDecodeError
   \<and> (\<forall>dumps str.
        completions_invoke_function_tool json_loads dumps str sample_registry (Some sample_config)
          ''search'' (Some ''{\"query\": '') = Inl JSONDecodeError
      \<and> assistants_invoke_function_tool json_loads dumps str sample_registry (Some sample_config)
          ''search'' (Some ''{\"query\": '') ''call_1'' = Inl JSONDecodeError
      \<and> completions_invoke_function_tool json_loads dumps str sample_registry (Some sample_config)
          ''search'' None = Inr ''no query'')"
proof -
  have "completions_invoke_function_tool json_loads dumps str sample_registry (Some sample_config)
          ''search'' None = Inr ''no query''" for dumps str
    using C4_malformed_arguments_propagate [of json_loads dumps str sample_registry
        "Some sample_config" "''search''"]
    by (simp add: invoke_function_tool_def get_function_config_def sample_config_def
        registry_contains_def sample_registry_def registry_getitem_def and_then_def
        sample_search_def result_to_string_def)
  with C4_malformed_arguments_propagate [of json_loads _ _ sample_registry "Some sample_config"
      "''search''" _ "''{\"query\": ''" JSONDecodeError] truncated_args_text
  show ?thesis by simp
qed

text \<open>
  The claim as stated fails: an argument text cut off after the key is not treated as no
  arguments.
\<close>

theorem C4_counterexample:
  "\<forall>dumps str.
     completions_invoke_function_tool json_loads dumps str sample_registry (Some sample_config)
       ''search'' (Some ''{\"query\": '') = Inl JSONDecodeError
     \<and> completions_invoke_function_tool json_loads dumps str sample_registry (Some sample_config)
       ''search'' None = Inr ''no query''"
  by (simp add: completions_invoke_function_tool_def parse_function_args_def truncated_args_text
      and_then_def invoke_and_normalise_def invoke_function_tool_def get_function_config_def
      sample_config_def registry_contains_def sample_registry_def registry_getitem_def
      sample_search_def result_to_string_def)

section \<open>Properties of history compaction\<close>

lemma push_update_to_stream_ok:
  assumes "px_stream_id st = None \<or> px_pubsub_error st = None"
  shows "push_update_to_stream content message_type st =
     Inr (st\<lparr>px_reads := Suc (px_reads st),
            px_pushed := px_pushed st @
              (case px_stream_id st of
                 None \<Rightarrow> []
               | Some stream_id \<Rightarrow>
                   [(stream_id, to_message \<lparr>sm_content = content, sm_message_type = message_type,
                        sm_timestamp = px_clock st (px_reads st) * 1000\<rparr>)])\<rparr>)"
  using assms
  by (auto simp: push_update_to_stream_def read_clock_def Let_def split: option.splits)

lemma add_message_to_thread_ok:
  assumes "px_history st = Some messages"
  shows "add_message_to_thread message st =
     Inr (st\<lparr>px_reads := Suc (px_reads st),
            px_history := Some (messages @ [dict_set message ''ts'' (ts_at st 0)])\<rparr>)"
  using assms by (simp add: add_message_to_thread_def read_clock_def Let_def ts_at_def)

lemma add_user_prompt_to_thread_ok:
  assumes "px_history st = Some messages"
  shows "add_user_prompt_to_thread retrieve_thread message role thread_id st =
     Inr (st\<lparr>px_reads := Suc (px_reads st),
            px_history := Some (messages @ [[(''ts'', ts_at st 0), (''content'', PStr message),
                                            (''role'', PStr role)]])\<rparr>)"
  using assms
  by (simp add: add_user_prompt_to_thread_def read_clock_def Let_def ts_at_def and_then_def)

lemma ts_at_simps [simp]:
  "ts_at (st\<lparr>px_reads := n\<rparr>) k = PInt (millis (px_clock st (n + k)))"
  "ts_at (st\<lparr>px_history := h\<rparr>) k = ts_at st k"
  "ts_at (st\<lparr>px_pushed := p\<rparr>) k = ts_at st k"
  by (simp_all add: ts_at_def)

lemma summarise_thread_one_choice:
  assumes hist: "px_history st = Some (older @ [second, most_recent])"
    and pub: "px_stream_id st = None \<or> px_pubsub_error st = None"
    and answer: "create (map strip_ts (older @ [dict_set summary_request ''ts'' (ts_at st 1)]))
                   = Inr [choice]"
    and content: "cm_content choice = Some summary"
  shows "\<exists>st'. summarise_thread create st = Inr st'
    \<and> px_history st' =
        Some [dict_set [(''content'', PStr (get_system_prompt st)), (''role'', PStr ''system'')]
                ''ts'' (ts_at st 2),
              dict_set (summary_message summary (cm_role choice)) ''ts'' (ts_at st 3),
              dict_set second ''ts'' (ts_at st 4),
              dict_set most_recent ''ts'' (ts_at st 5)]"
proof -
  have bl: "butlast (older @ [second, most_recent]) = older @ [second]"
    by (simp add: butlast_append)
  show ?thesis
    unfolding summarise_thread_def push_update_to_stream_ok [OF pub]
    using answer content
    by (simp add: and_then_def hist bl Let_def add_message_to_thread_def read_clock_def
        get_system_prompt_def ts_at_def eval_nat_numeral)
qed


lemma compaction_one_choice:
  assumes hist: "px_history st = Some msgs"
    and initialised: "msgs \<noteq> []"
    and pub: "px_stream_id st = None \<or> px_pubsub_error st = None"
    and threshold: "px_max_history st \<le> int (length msgs) + 1"
    and answer: "create (map strip_ts (butlast msgs @ [dict_set summary_request ''ts'' (ts_at st 3)]))
                   = Inr [choice]"
    and content: "cm_content choice = Some summary"
  shows "\<exists>st'. send_message_begin retrieve_thread create message thread_id st = Inr st'
    \<and> px_history st' =
        Some [[(''content'', PStr (get_system_prompt st)), (''role'', PStr ''system''),
               (''ts'', ts_at st 4)],
              [(''content'', PStr (''Here is a summary of the conversation up to this point: ''
                                    @ summary)),
               (''role'', PStr (cm_role choice)), (''ts'', ts_at st 5)],
              dict_set (last msgs) ''ts'' (ts_at st 6),
              [(''ts'', ts_at st 7), (''content'', PStr message), (''role'', PStr ''user'')]]"
proof -
  let ?st1 = "st\<lparr>px_reads := Suc (px_reads st),
            px_pushed := px_pushed st @
              (case px_stream_id st of
                 None \<Rightarrow> []
               | Some stream_id \<Rightarrow>
                   [(stream_id, to_message \<lparr>sm_content = PStr ''Recalling our conversation so far'',
                        sm_message_type = ''progress'',
                        sm_timestamp = px_clock st (px_reads st) * 1000\<rparr>)])\<rparr>"
  let ?prompt = "[(''ts'', ts_at ?st1 0), (''content'', PStr message), (''role'', PStr ''user'')]"
  let ?st2 = "?st1\<lparr>px_reads := Suc (px_reads ?st1),
                   px_history := Some (msgs @ [?prompt])\<rparr>"
  have step1: "push_update_to_stream (PStr ''Recalling our conversation so far'') ''progress'' st
      = Inr ?st1"
    by (rule push_update_to_stream_ok [OF pub])
  have step2: "add_user_prompt_to_thread retrieve_thread message ''user'' thread_id ?st1 = Inr ?st2"
    by (rule add_user_prompt_to_thread_ok) (simp add: hist)
  have split: "msgs @ [?prompt] = butlast msgs @ [last msgs, ?prompt]"
    using initialised by simp
  have hist2: "px_history ?st2 = Some (butlast msgs @ [last msgs, ?prompt])"
    using split by simp
  have pub2: "px_stream_id ?st2 = None \<or> px_pubsub_error ?st2 = None"
    using pub by simp
  have answer2: "create (map strip_ts (butlast msgs @ [dict_set summary_request ''ts'' (ts_at ?st2 1)]))
      = Inr [choice]"
    using answer by (simp add: ts_at_def eval_nat_numeral)
  from summarise_thread_one_choice [where st = ?st2 and older = "butlast msgs" and second = "last msgs"
      and most_recent = ?prompt and create = create and choice = choice and summary = summary,
      OF hist2 pub2 answer2 content]
  obtain st' where run: "summarise_thread create ?st2 = Inr st'"
    and result: "px_history st' =
        Some [dict_set [(''content'', PStr (get_system_prompt ?st2)), (''role'', PStr ''system'')]
                ''ts'' (ts_at ?st2 2),
              dict_set (summary_message summary (cm_role choice)) ''ts'' (ts_at ?st2 3),
              dict_set (last msgs) ''ts'' (ts_at ?st2 4),
              dict_set ?prompt ''ts'' (ts_at ?st2 5)]"
    by blast
  have len: "px_max_history ?st2 \<le> int (length (case px_history ?st2 of None \<Rightarrow> [] | Some ms \<Rightarrow> ms))"
    using threshold by simp
  have "send_message_begin retrieve_thread create message thread_id st = Inr st'"
    unfolding send_message_begin_def step1 and_then_def
    using step2 len run by simp
  moreover have "px_history st' =
        Some [[(''content'', PStr (get_system_prompt st)), (''role'', PStr ''system''),
               (''ts'', ts_at st 4)],
              [(''content'', PStr (''Here is a summary of the conversation up to this point: ''
                                    @ summary)),
               (''role'', PStr (cm_role choice)), (''ts'', ts_at st 5)],
              dict_set (last msgs) ''ts'' (ts_at st 6),
              [(''ts'', ts_at st 7), (''content'', PStr message), (''role'', PStr ''user'')]]"
    unfolding result
    by (simp add: dict_set_def summary_message_def get_system_prompt_def ts_at_def eval_nat_numeral)
  ultimately show ?thesis by blast
qed


lemma add_message_to_thread_history:
  assumes "add_message_to_thread message st = Inr st'"
  shows "\<exists>messages t. px_history st = Some messages
           \<and> px_history st' = Some (messages @ [dict_set message ''ts'' (PInt t)])"
  using assms
  by (auto simp: add_message_to_thread_def read_clock_def Let_def split: option.splits)

lemma add_summaries_history:
  "add_summaries ms st = Inr st' \<Longrightarrow> px_history st = Some h \<Longrightarrow>
   \<exists>extra. px_history st' = Some (h @ extra)"
proof (induction ms arbitrary: st h)
  case Nil
  then show ?case by simp
next
  case (Cons m ms)
  from Cons.prems(1) obtain content st1
    where one: "add_message_to_thread (summary_message content (cm_role m)) st = Inr st1"
      and rest: "add_summaries ms st1 = Inr st'"
    by (auto simp: and_then_def split: option.splits sum.splits)
  from add_message_to_thread_history [OF one] Cons.prems(2)
  obtain t where h1: "px_history st1 = Some (h @ [dict_set (summary_message content (cm_role m)) ''ts'' (PInt t)])"
    by auto
  from Cons.IH [OF rest h1] show ?case by auto
qed

lemma summarise_thread_keeps_last_two:
  assumes run: "summarise_thread create st = Inr st'"
    and hist: "px_history st = Some msgs"
  shows "\<exists>prefix t2 t1.
           px_history st' =
             Some (prefix @ [dict_set (last (butlast msgs)) ''ts'' (PInt t2),
                             dict_set (last msgs) ''ts'' (PInt t1)])"
proof -
  from run obtain st1 where p: "push_update_to_stream
      (PStr ''I'm just summarising the conversation so far'') ''progress'' st = Inr st1"
    and body: "(case px_history st1 of
       None \<Rightarrow> Inl AttributeError
     | Some messages \<Rightarrow>
         if messages = [] then Inl IndexError
         else if butlast messages = [] then Inl IndexError
         else
           (let most_recent_message = last messages;
                second_most_recent_message = last (butlast messages);
                st2 = st1\<lparr>px_history := Some (butlast (butlast messages))\<rparr>
            in and_then (add_message_to_thread summary_request st2) (\<lambda>st3.
               and_then (create (map strip_ts (case px_history st3 of None \<Rightarrow> [] | Some ms \<Rightarrow> ms)))
                 (\<lambda>choices.
               and_then (add_message_to_thread
                           [(''content'', PStr (get_system_prompt st3)), (''role'', PStr ''system'')]
                           (st3\<lparr>px_history := Some []\<rparr>)) (\<lambda>st4.
               and_then (add_summaries choices st4) (\<lambda>st5.
               and_then (add_message_to_thread second_most_recent_message st5) (\<lambda>st6.
               add_message_to_thread most_recent_message st6))))))) = Inr st'"
    unfolding summarise_thread_def and_then_def by (auto split: sum.splits)
  have h1: "px_history st1 = Some msgs"
    using p hist
    by (auto simp: push_update_to_stream_def read_clock_def Let_def split: option.splits)
  from body obtain st3 choices st4 st5 st6
    where a4: "add_message_to_thread
                 [(''content'', PStr (get_system_prompt st3)), (''role'', PStr ''system'')]
                 (st3\<lparr>px_history := Some []\<rparr>) = Inr st4"
      and a5: "add_summaries choices st4 = Inr st5"
      and a6: "add_message_to_thread (last (butlast msgs)) st5 = Inr st6"
      and a7: "add_message_to_thread (last msgs) st6 = Inr st'"
    unfolding h1 and_then_def by (auto simp: Let_def split: if_splits sum.splits)
  from add_message_to_thread_history [OF a4] obtain h4 where h4: "px_history st4 = Some h4"
    by auto
  from add_summaries_history [OF a5 h4] obtain h5 where h5: "px_history st5 = Some h5"
    by auto
  from add_message_to_thread_history [OF a6] h5
  obtain t2 where h6: "px_history st6 = Some (h5 @ [dict_set (last (butlast msgs)) ''ts'' (PInt t2)])"
    by auto
  from add_message_to_thread_history [OF a7] h6
  obtain t1 where "px_history st' = Some ((h5 @ [dict_set (last (butlast msgs)) ''ts'' (PInt t2)])
      @ [dict_set (last msgs) ''ts'' (PInt t1)])"
    by auto
  then show ?thesis by auto
qed

lemma send_message_begin_prompt_last:
  assumes run: "send_message_begin retrieve_thread create message thread_id st = Inr st'"
    and hist: "px_history st = Some msgs"
  shows "\<exists>prefix t. px_history st' =
           Some (prefix @ [[(''ts'', PInt t), (''content'', PStr message), (''role'', PStr ''user'')]])"
proof -
  from run obtain st1 st2
    where p: "push_update_to_stream (PStr ''Recalling our conversation so far'') ''progress'' st
              = Inr st1"
      and u: "add_user_prompt_to_thread retrieve_thread message ''user'' thread_id st1 = Inr st2"
      and rest: "(if px_max_history st2
                      \<le> int (length (case px_history st2 of None \<Rightarrow> [] | Some ms \<Rightarrow> ms))
                  then summarise_thread create st2 else Inr st2) = Inr st'"
    unfolding send_message_begin_def and_then_def by (auto split: sum.splits)
  have h1: "px_history st1 = Some msgs"
    using p hist
    by (auto simp: push_update_to_stream_def read_clock_def Let_def split: option.splits)
  from u h1 obtain t where h2: "px_history st2 =
      Some (msgs @ [[(''ts'', PInt t), (''content'', PStr message), (''role'', PStr ''user'')]])"
    by (auto simp: add_user_prompt_to_thread_def and_then_def read_clock_def Let_def)
  show ?thesis
  proof (cases "px_max_history st2
                  \<le> int (length (case px_history st2 of None \<Rightarrow> [] | Some ms \<Rightarrow> ms))")
    case True
    with rest have "summarise_thread create st2 = Inr st'" by simp
    from summarise_thread_keeps_last_two [OF this h2]
    obtain prefix t2 t1 where "px_history st' =
        Some (prefix @ [dict_set (last (butlast (msgs @ [[(''ts'', PInt t), (''content'', PStr message), (''role'', PStr ''user'')]]))) ''ts'' (PInt t2),
                        dict_set (last (msgs @ [[(''ts'', PInt t), (''content'', PStr message), (''role'', PStr ''user'')]])) ''ts'' (PInt t1)])"
      by blast
    then have "px_history st' =
        Some ((prefix @ [dict_set (last (butlast (msgs @ [[(''ts'', PInt t), (''content'', PStr message), (''role'', PStr ''user'')]]))) ''ts'' (PInt t2)])
              @ [[(''ts'', PInt t1), (''content'', PStr message), (''role'', PStr ''user'')]])"
      by (simp add: dict_set_def)
    then show ?thesis by blast
  next
    case False
    with rest h2 show ?thesis by auto
  qed
qed


text \<open>
  C6. Let the session be initialised (its history is not empty), the notification channel
  work, and the message count have reached \<open>max_history\<close> once the prompt is appended. If
  the completion service answers the summary request with one choice that has a text, the
  statements of \<open>send_message\<close> before the step loop leave the history as exactly the
  system prompt, the summary, and the two messages that were last before the compaction, the
  prompt being the final one; each of the four carries the timestamp of its re-insertion.
  And whatever the service answers, if these statements return, the prompt is the last
  message of the history.
\<close>

theorem C6_compaction_keeps_prompt:
  assumes hist: "px_history st = Some msgs"
    and initialised: "msgs \<noteq> []"
    and pub: "px_stream_id st = None \<or> px_pubsub_error st = None"
    and threshold: "px_max_history st \<le> int (length msgs) + 1"
    and answer: "create (map strip_ts (butlast msgs @ [dict_set summary_request ''ts'' (ts_at st 3)]))
                   = Inr [choice]"
    and content: "cm_content choice = Some summary"
  shows "(\<exists>st'. send_message_begin retrieve_thread create message thread_id st = Inr st'
      \<and> px_history st' =
          Some [[(''content'', PStr (get_system_prompt st)), (''role'', PStr ''system''),
                 (''ts'', ts_at st 4)],
                [(''content'', PStr (''Here is a summary of the conversation up to this point: ''
                                      @ summary)),
                 (''role'', PStr (cm_role choice)), (''ts'', ts_at st 5)],
                dict_set (last msgs) ''ts'' (ts_at st 6),
                [(''ts'', ts_at st 7), (''content'', PStr message), (''role'', PStr ''user'')]])
    \<and> (\<forall>any_create st''.
          send_message_begin retrieve_thread any_create message thread_id st = Inr st'' \<longrightarrow>
          (\<exists>prefix t. px_history st'' =
             Some (prefix @ [[(''ts'', PInt t), (''content'', PStr message),
                              (''role'', PStr ''user'')]])))"
  using compaction_one_choice [where create = create, OF hist initialised pub threshold answer content]
    send_message_begin_prompt_last [OF _ hist]
  by blast

theorem C6_compaction_keeps_prompt_witness:
  "px_history sample_long_state =
     Some [[(''ts'', PInt 1000), (''content'', PStr ''Be brief.''), (''role'', PStr ''system'')],
           [(''ts'', PInt 2000), (''content'', PStr ''Hi?''), (''role'', PStr ''user'')],
           [(''content'', PStr ''Hello''), (''role'', PStr ''assistant''), (''ts'', PInt 3000)]]
   \<and> px_max_history sample_long_state \<le> 4
   \<and> (\<exists>st'. send_message_begin no_stored_thread sample_summariser ''And then?'' (Some ''thread-1'')
               sample_long_state = Inr st'
      \<and> px_history st' =
          Some [[(''content'', PStr ''Be brief.''), (''role'', PStr ''system''), (''ts'', PInt 105000)],
                [(''content'', PStr ''Here is a summary of the conversation up to this point: Greetings were exchanged.''),
                 (''role'', PStr ''assistant''), (''ts'', PInt 106000)],
                [(''content'', PStr ''Hello''), (''role'', PStr ''assistant''), (''ts'', PInt 107000)],
                [(''ts'', PInt 108000), (''content'', PStr ''And then?''), (''role'', PStr ''user'')]])"
proof -
  have hist: "px_history sample_long_state =
     Some [[(''ts'', PInt 1000), (''content'', PStr ''Be brief.''), (''role'', PStr ''system'')],
           [(''ts'', PInt 2000), (''content'', PStr ''Hi?''), (''role'', PStr ''user'')],
           [(''content'', PStr ''Hello''), (''role'', PStr ''assistant''), (''ts'', PInt 3000)]]"
    by (simp add: sample_long_state_def)
  have initialised:
    "[[(''ts'', PInt 1000), (''content'', PStr ''Be brief.''), (''role'', PStr ''system'')],
      [(''ts'', PInt 2000), (''content'', PStr ''Hi?''), (''role'', PStr ''user'')],
      [(''content'', PStr ''Hello''), (''role'', PStr ''assistant''), (''ts'', PInt 3000)]] \<noteq> []"
    by simp
  have pub: "px_stream_id sample_long_state = None \<or> px_pubsub_error sample_long_state = None"
    by (simp add: sample_long_state_def)
  have threshold: "px_max_history sample_long_state
      \<le> int (length [[(''ts'', PInt 1000), (''content'', PStr ''Be brief.''), (''role'', PStr ''system'')],
           [(''ts'', PInt 2000), (''content'', PStr ''Hi?''), (''role'', PStr ''user'')],
           [(''content'', PStr ''Hello''), (''role'', PStr ''assistant''), (''ts'', PInt 3000)]]) + 1"
    by (simp add: sample_long_state_def)
  have answer: "sample_summariser (map strip_ts (butlast
        [[(''ts'', PInt 1000), (''content'', PStr ''Be brief.''), (''role'', PStr ''system'')],
         [(''ts'', PInt 2000), (''content'', PStr ''Hi?''), (''role'', PStr ''user'')],
         [(''content'', PStr ''Hello''), (''role'', PStr ''assistant''), (''ts'', PInt 3000)]]
        @ [dict_set summary_request ''ts'' (ts_at sample_long_state 3)]))
      = Inr [\<lparr>cm_content = Some ''Greetings were exchanged.'', cm_role = ''assistant''\<rparr>]"
    by (simp add: sample_summariser_def)
  have content: "cm_content \<lparr>cm_content = Some ''Greetings were exchanged.'', cm_role = ''assistant''\<rparr>
      = Some ''Greetings were exchanged.''"
    by simp
  have times: "ts_at sample_long_state 4 = PInt 105000" "ts_at sample_long_state 5 = PInt 106000"
    "ts_at sample_long_state 6 = PInt 107000" "ts_at sample_long_state 7 = PInt 108000"
    by (simp_all add: ts_at_def sample_long_state_def millis_def)
  have sys: "get_system_prompt sample_long_state = ''Be brief.''"
    by (simp add: get_system_prompt_def sample_long_state_def)
  from C6_compaction_keeps_prompt [where create = sample_summariser and retrieve_thread = no_stored_thread
      and message = "''And then?''" and thread_id = "Some ''thread-1''",
      OF hist initialised pub threshold answer content, THEN conjunct1]
  show ?thesis
    unfolding times sys using hist by (simp add: dict_set_def sample_long_state_def)
qed

section \<open>Properties of the multi-agent orchestration\<close>

lemma tuple_timeout_raises:
  "process_prompt_in_thread svc prompt assistant thread_id (SecondsAndMetadata secs metadata) st
     = Inl TypeError"
  by (simp add: process_prompt_in_thread_def time_now_def add_seconds_def and_then_def Let_def)

text \<open>
  C3. Every worker call of the fan-out receives the tuple of the remaining time and the
  metadata as its timeout and raises TypeError at \<open>start_time + timeout_secs\<close>, outside any
  handler; collecting the results re-raises it. With three agents, of which \<open>B\<close> would time
  out and \<open>A\<close> would succeed, the orchestration ends in TypeError: no synthesis prompt is
  built and no counts are returned. Called with a number of seconds, as the single-assistant
  path calls it, the same function does degrade the timeout of \<open>B\<close> to a failure.
\<close>

theorem C3_worker_call_raises_type_error:
  "process_prompt_in_thread svc prompt assistant thread_id (SecondsAndMetadata secs metadata) st
     = Inl TypeError
   \<and> process_prompt sample_agents to_response ''What is 2+2?'' 90 sample_processor = Inl TypeError
   \<and> map_sum (\<lambda>e. e) fst
        (process_prompt_in_thread sample_agents ''What is 2+2?'' ''asst_B'' ''thread_2'' (Seconds 90)
           sample_processor) = Inr (False, None)"
  by (simp add: tuple_timeout_raises process_prompt_def orchestrate_prompt_with_assistants_def
      sample_processor_def sample_agents_def time_now_def and_then_def Let_def get_linked_thread_def
      create_thread_def add_linked_thread_def process_prompt_in_thread_def add_seconds_def)

end
